theory Spec2Isabelle
  imports Complex_Main "HOL-Library.Word"
begin

section \<open>JavaScript values used by Aurora\<close>

text \<open>
  A JavaScript string is a sequence of UTF-16 code units. String literals of the source
  are written with \<open>js\<close>, which maps each ASCII character to its code unit.
\<close>

type_synonym jschar = "16 word"
type_synonym jsstring = "jschar list"

definition js :: "string \<Rightarrow> jsstring" where
  "js = map of_char"

definition slash :: jschar where
  "slash = 0x2F"

text \<open>
  The code units removed by \<^verbatim>\<open>String.prototype.trim\<close>: the WhiteSpace and
  LineTerminator productions of ECMAScript (TAB, LF, VT, FF, CR, SP, NBSP, the
  space separators of Unicode, LS, PS and the byte order mark).
\<close>

definition isWhiteSpace :: "jschar \<Rightarrow> bool" where
  "isWhiteSpace c =
     (c = 0x09 \<or> c = 0x0A \<or> c = 0x0B \<or> c = 0x0C \<or> c = 0x0D \<or> c = 0x20 \<or> c = 0xA0
      \<or> c = 0x1680 \<or> (0x2000 \<le> c \<and> c \<le> 0x200A) \<or> c = 0x2028 \<or> c = 0x2029
      \<or> c = 0x202F \<or> c = 0x205F \<or> c = 0x3000 \<or> c = 0xFEFF)"

definition trim :: "jsstring \<Rightarrow> jsstring" where
  "trim s = rev (dropWhile isWhiteSpace (rev (dropWhile isWhiteSpace s)))"

text \<open>
  \<^verbatim>\<open>s.replace(/\/+$/, '')\<close>: the regular expression is tried at each position from the
  left; at a position it matches when the code unit there is a slash and only slashes
  follow up to the end of the string. The first match is replaced by the empty string.
\<close>

fun replaceTrailingSlashes :: "jsstring \<Rightarrow> jsstring" where
  "replaceTrailingSlashes [] = []"
| "replaceTrailingSlashes (c # cs) =
     (if c = slash \<and> list_all (\<lambda>d. d = slash) cs then []
      else c # replaceTrailingSlashes cs)"

text \<open>
  \<^verbatim>\<open>s.replace(/^\/+/, '')\<close>: the expression is anchored at position 0 and takes the
  longest run of slashes there; a string that does not start with a slash is unchanged.
\<close>

definition replaceLeadingSlashes :: "jsstring \<Rightarrow> jsstring" where
  "replaceLeadingSlashes s = dropWhile (\<lambda>c. c = slash) s"

text \<open>
  What a call can throw: the library's \<^verbatim>\<open>AuroraInstanceError\<close> with its message, the
  \<^verbatim>\<open>TypeError\<close> of the language (a property read on \<^verbatim>\<open>undefined\<close>, \<^verbatim>\<open>Object.assign\<close>
  on \<^verbatim>\<open>undefined\<close>), and any other value a transport may reject with.
\<close>

datatype js_error = AuroraInstanceError jsstring | TypeError | OtherError nat

section \<open>URL normalisation\<close>

text \<open>
  \<^verbatim>\<open>Aurora.normalizeUrl\<close> (Aurora.ts, lines 39 to 46). An empty string is the only falsy
  string, so \<^verbatim>\<open>!s.trim()\<close> is \<open>trim s = []\<close>.
\<close>

definition normalizeUrl :: "jsstring \<Rightarrow> jsstring \<Rightarrow> js_error + jsstring" where
  "normalizeUrl baseURL endpoint =
     (if trim baseURL = [] \<and> trim endpoint = []
      then Inl (AuroraInstanceError (js ''URL cannot be null''))
      else
        let cleanBaseURL = replaceTrailingSlashes baseURL;
            cleanEndpoint = replaceLeadingSlashes endpoint
        in Inr (if cleanBaseURL \<noteq> [] then cleanBaseURL @ js ''/'' @ cleanEndpoint
                else cleanEndpoint))"

section \<open>Numbers\<close>

text \<open>
  A JavaScript number, as far as the orchestrator uses it: it is compared and stored,
  never computed with, apart from the in-flight counter, which only takes integer values.
  Finite numbers are embedded in the reals; the comparisons \<^verbatim>\<open>>\<close> and \<^verbatim>\<open>>=\<close> are false
  whenever an operand is \<^verbatim>\<open>NaN\<close>.
\<close>

datatype number = NaN | NegInfinity | Finite real | PosInfinity

fun js_gt :: "number \<Rightarrow> number \<Rightarrow> bool" where
  "js_gt (Finite a) (Finite b) = (b < a)"
| "js_gt (Finite a) NegInfinity = True"
| "js_gt PosInfinity (Finite b) = True"
| "js_gt PosInfinity NegInfinity = True"
| "js_gt _ _ = False"

fun js_ge :: "number \<Rightarrow> number \<Rightarrow> bool" where
  "js_ge NaN _ = False"
| "js_ge _ NaN = False"
| "js_ge (Finite a) (Finite b) = (b \<le> a)"
| "js_ge PosInfinity _ = True"
| "js_ge _ NegInfinity = True"
| "js_ge _ _ = False"

text \<open>The falsy numbers are \<^verbatim>\<open>0\<close>, \<^verbatim>\<open>-0\<close> and \<^verbatim>\<open>NaN\<close>.\<close>

definition truthy :: "number \<Rightarrow> bool" where
  "truthy n = (n \<noteq> NaN \<and> n \<noteq> Finite 0)"

section \<open>Objects, options and the orchestrator's state\<close>

text \<open>
  Property values of the plain objects Aurora handles (header and parameter maps, the
  request object of a transport error, pass-through request options), and objects as
  maps from property names.
\<close>

datatype jsvalue = VUndefined | VString jsstring | VNumber number | VObject nat

type_synonym jsobject = "jsstring \<rightharpoonup> jsvalue"

text \<open>
  The part of the injected Axios instance that Aurora reads and writes: its
  \<^verbatim>\<open>defaults\<close>. \<^verbatim>\<open>defaults.baseURL\<close>, \<^verbatim>\<open>defaults.params\<close> and \<^verbatim>\<open>defaults.timeout\<close> are
  optional members of the Axios request configuration (\<open>None\<close> is \<^verbatim>\<open>undefined\<close>); \<^verbatim>\<open>defaults.headers.common\<close> is
  an object.
\<close>

record axios_defaults =
  baseURL :: "jsstring option"
  headers_common :: jsobject
  params :: "jsobject option"
  timeout :: "number option"

text \<open>
  An \<^verbatim>\<open>Aurora\<close> instance: \<^verbatim>\<open>axiosInstance\<close>, \<^verbatim>\<open>requests = { max, current }\<close> and
  \<^verbatim>\<open>defaultAbortController\<close>. Abort controllers and callbacks are identified by numbers.
\<close>

record aurora =
  axiosInstance :: axios_defaults
  requests_max :: number
  requests_current :: int
  defaultAbortController :: nat

text \<open>
  A property of an options object is absent, present with the value \<^verbatim>\<open>undefined\<close>, or
  present with a value. The object spread \<^verbatim>\<open>{...a, ...b}\<close> takes every property that
  \<open>b\<close> has from \<open>b\<close>, also one whose value is \<^verbatim>\<open>undefined\<close>.
\<close>

datatype 'a property = Absent | Undef | Given 'a

text \<open>
  \<^verbatim>\<open>AuroraCallOptions\<close> (types.ts): \<^verbatim>\<open>endpoint\<close>, \<^verbatim>\<open>abortController\<close> (a controller or
  \<^verbatim>\<open>null\<close>), \<^verbatim>\<open>loadingCallback\<close>, and the remaining properties of the Axios request
  configuration.
\<close>

record call_options =
  endpoint :: "jsstring property"
  abortController :: "nat option property"
  loadingCallback :: "nat property"
  passthrough :: jsobject

definition no_options :: call_options where
  "no_options = \<lparr>endpoint = Absent, abortController = Absent, loadingCallback = Absent,
     passthrough = Map.empty\<rparr>"

definition spread_property :: "'a property \<Rightarrow> 'a property \<Rightarrow> 'a property" where
  "spread_property a b = (case b of Absent \<Rightarrow> a | Undef \<Rightarrow> Undef | Given v \<Rightarrow> Given v)"

definition spread :: "call_options \<Rightarrow> call_options \<Rightarrow> call_options" where
  "spread a b =
     \<lparr>endpoint = spread_property (endpoint a) (endpoint b),
      abortController = spread_property (abortController a) (abortController b),
      loadingCallback = spread_property (loadingCallback a) (loadingCallback b),
      passthrough = passthrough a ++ passthrough b\<rparr>"

text \<open>
  The argument of \<^verbatim>\<open>this.axiosInstance({...options, url, signal})\<close>: the rest options,
  the resolved URL and the signal of the effective controller (\<open>None\<close> when the controller
  is \<^verbatim>\<open>null\<close>). The method of the call is not a member of it.
\<close>

record request_config =
  cfg_options :: call_options
  cfg_url :: jsstring
  cfg_signal :: "nat option"

text \<open>
  What the instance does to the outside, in order: invocations of a loading callback with
  its argument, invocations of the Axios instance, with the defaults the instance holds
  at that moment and the configuration passed, and invocations of \<^verbatim>\<open>abort()\<close> on a
  controller.
\<close>

datatype event =
  LoadingCallback nat bool | Transport axios_defaults request_config | Abort nat

section \<open>Transport outcomes and classified errors\<close>

record axios_response =
  res_status :: "number option"
  res_data :: jsvalue

text \<open>
  An \<^verbatim>\<open>AxiosError\<close>: \<^verbatim>\<open>message\<close>, \<^verbatim>\<open>code\<close>, \<^verbatim>\<open>request\<close>, \<^verbatim>\<open>response\<close> and \<^verbatim>\<open>config\<close>. All
  but the message are optional members of the Axios type.
\<close>

record axios_error =
  ae_message :: jsstring
  ae_code :: "jsstring option"
  ae_request :: "jsobject option"
  ae_response :: "axios_response option"
  ae_config :: "request_config option"

text \<open>
  The fields of class \<^verbatim>\<open>AuroraPromiseError\<close> (module \<^verbatim>\<open>./errors\<close>, listed after
  Aurora.ts, lines 202 to 217).
\<close>

record aurora_promise_error =
  name :: jsstring
  msg :: jsstring
  errorCode :: "jsstring option"
  requestStatus :: jsvalue
  responseStatus :: number
  axiosInstanceConfig :: "request_config option"

text \<open>
  The constructor of \<^verbatim>\<open>AuroraPromiseError\<close>. \<^verbatim>\<open>axiosError.request.status\<close> reads a
  property of \<^verbatim>\<open>axiosError.request\<close>: a \<^verbatim>\<open>TypeError\<close> when there is no request object,
  \<^verbatim>\<open>undefined\<close> when the object has no such property.
  \<^verbatim>\<open>axiosError.response?.status ?? 500\<close> is 500 when there is no response or the
  response has no status.
\<close>

definition AuroraPromiseError :: "axios_error \<Rightarrow> js_error + aurora_promise_error" where
  "AuroraPromiseError axiosError =
     (case ae_request axiosError of
        None \<Rightarrow> Inl TypeError
      | Some request \<Rightarrow>
          Inr \<lparr>name = js ''AuroraPromiseError'',
               msg = ae_message axiosError,
               errorCode = ae_code axiosError,
               requestStatus = (case request (js ''status'') of None \<Rightarrow> VUndefined | Some v \<Rightarrow> v),
               responseStatus =
                 (case ae_response axiosError of
                    None \<Rightarrow> Finite 500
                  | Some r \<Rightarrow> (case res_status r of None \<Rightarrow> Finite 500 | Some st \<Rightarrow> st)),
               axiosInstanceConfig = ae_config axiosError\<rparr>)"

text \<open>
  How the awaited transport promise settles: fulfilled with a response, rejected with an
  \<^verbatim>\<open>AxiosError\<close>, or rejected with a value that is not an instance of \<^verbatim>\<open>AxiosError\<close>.
\<close>

datatype outcome = Fulfilled axios_response | RejectedAxios axios_error | RejectedOther js_error

section \<open>The request limit\<close>

text \<open>
  \<^verbatim>\<open>setMaxConcurrentRequestsLimit(limit?)\<close> (Aurora.ts, lines 35 to 37):
  \<^verbatim>\<open>limit && limit > 0 ? limit : Number.POSITIVE_INFINITY\<close>; \<open>None\<close> is the absent argument.
\<close>

definition setMaxConcurrentRequestsLimit :: "number option \<Rightarrow> aurora \<Rightarrow> aurora" where
  "setMaxConcurrentRequestsLimit limit s =
     s\<lparr>requests_max :=
         (case limit of
            None \<Rightarrow> PosInfinity
          | Some l \<Rightarrow> if truthy l \<and> js_gt l (Finite 0) then l else PosInfinity)\<rparr>"

text \<open>
  The constructor (Aurora.ts, lines 19 to 29) on the defaults of the given Axios instance
  and the given controller: \<^verbatim>\<open>url\<close> defaults to the empty string and
  \<^verbatim>\<open>maxConcurrentRequests\<close> to \<^verbatim>\<open>Number.POSITIVE_INFINITY\<close>; the field initialiser sets
  \<^verbatim>\<open>requests\<close> to \<^verbatim>\<open>{ max: 0, current: 0 }\<close> first.
\<close>

definition Aurora :: "jsstring option \<Rightarrow> number option \<Rightarrow> nat \<Rightarrow> axios_defaults \<Rightarrow> aurora" where
  "Aurora url maxConcurrentRequests abortCtl axios =
     setMaxConcurrentRequestsLimit
       (Some (case maxConcurrentRequests of None \<Rightarrow> PosInfinity | Some n \<Rightarrow> n))
       \<lparr>axiosInstance = axios\<lparr>baseURL := Some (case url of None \<Rightarrow> [] | Some u \<Rightarrow> u)\<rparr>,
        requests_max = Finite 0,
        requests_current = 0,
        defaultAbortController = abortCtl\<rparr>"

section \<open>The request orchestrator\<close>

text \<open>
  \<^verbatim>\<open>Aurora.call\<close> (Aurora.ts, lines 55 to 103) is an \<^verbatim>\<open>async\<close> function with one
  \<^verbatim>\<open>await\<close>. \<open>call_begin\<close> is the part that runs when \<^verbatim>\<open>call\<close> is invoked, up to the
  \<^verbatim>\<open>await\<close>; \<open>call_resume\<close> is the part that runs when the transport promise settles.
  Both take the state of the instance at their own moment and return the new state and
  the events they emit. A call suspended at the \<^verbatim>\<open>await\<close> keeps its local variables
  \<^verbatim>\<open>method\<close>, \<^verbatim>\<open>options\<close> (the rest of the destructuring) and \<^verbatim>\<open>loadingCallback\<close>.
  A loading callback is assumed to return normally.
\<close>

record pending =
  pend_method :: jsstring
  pend_options :: call_options
  pend_loadingCallback :: "nat option"

datatype begin_result = Threw js_error | Awaiting pending

definition invoke :: "nat option \<Rightarrow> bool \<Rightarrow> event list" where
  "invoke loadingCb b = (case loadingCb of None \<Rightarrow> [] | Some f \<Rightarrow> [LoadingCallback f b])"

text \<open>
  The destructuring of the second parameter,
  \<^verbatim>\<open>{ abortController = this.defaultAbortController, loadingCallback, ...options }\<close>:
  the default applies when the property is absent or \<^verbatim>\<open>undefined\<close>, not when it is
  \<^verbatim>\<open>null\<close>; \<^verbatim>\<open>options\<close> holds every property but the two named ones.
\<close>

definition local_abortController :: "call_options \<Rightarrow> aurora \<Rightarrow> nat option" where
  "local_abortController opts s =
     (case abortController opts of
        Absent \<Rightarrow> Some (defaultAbortController s)
      | Undef \<Rightarrow> Some (defaultAbortController s)
      | Given c \<Rightarrow> c)"

definition local_loadingCallback :: "call_options \<Rightarrow> nat option" where
  "local_loadingCallback opts =
     (case loadingCallback opts of Absent \<Rightarrow> None | Undef \<Rightarrow> None | Given f \<Rightarrow> Some f)"

definition rest_options :: "call_options \<Rightarrow> call_options" where
  "rest_options opts = opts\<lparr>abortController := Absent, loadingCallback := Absent\<rparr>"

text \<open>
  \<^verbatim>\<open>this.normalizeUrl(this.axiosInstance.defaults.baseURL ?? "", options.endpoint ?? '')\<close>.
\<close>

definition resolve_url :: "call_options \<Rightarrow> aurora \<Rightarrow> js_error + jsstring" where
  "resolve_url options s =
     normalizeUrl
       (case baseURL (axiosInstance s) of None \<Rightarrow> [] | Some b \<Rightarrow> b)
       (case endpoint options of Absent \<Rightarrow> [] | Undef \<Rightarrow> [] | Given e \<Rightarrow> e)"

text \<open>
  The admission check and the increment (Aurora.ts, lines 63 to 66), and the decrement of
  the \<^verbatim>\<open>finally\<close> block (line 92).
\<close>

definition admit :: "aurora \<Rightarrow> js_error + aurora" where
  "admit s =
     (if js_ge (Finite (of_int (requests_current s))) (requests_max s)
      then Inl (AuroraInstanceError (js ''Request limit exceeded''))
      else Inr (s\<lparr>requests_current := requests_current s + 1\<rparr>))"

definition release :: "aurora \<Rightarrow> aurora" where
  "release s = s\<lparr>requests_current := requests_current s - 1\<rparr>"

text \<open>
  A throw of \<^verbatim>\<open>normalizeUrl\<close> is caught by the \<^verbatim>\<open>catch\<close> clause, is not an
  \<^verbatim>\<open>AxiosError\<close> and is thrown again; the \<^verbatim>\<open>finally\<close> block runs before it leaves
  the call.
\<close>

definition call_begin ::
  "jsstring \<Rightarrow> call_options \<Rightarrow> aurora \<Rightarrow> begin_result \<times> aurora \<times> event list" where
  "call_begin meth opts s =
     (let abortCtl = local_abortController opts s;
          loadingCb = local_loadingCallback opts;
          options = rest_options opts
      in case admit s of
           Inl err \<Rightarrow> (Threw err, s, [])
         | Inr s1 \<Rightarrow>
             (case resolve_url options s1 of
                Inl err \<Rightarrow> (Threw err, release s1, invoke loadingCb False)
              | Inr url \<Rightarrow>
                  (Awaiting \<lparr>pend_method = meth, pend_options = options,
                             pend_loadingCallback = loadingCb\<rparr>,
                   s1,
                   invoke loadingCb True
                   @ [Transport (axiosInstance s1)
                        \<lparr>cfg_options = options, cfg_url = url, cfg_signal = abortCtl\<rparr>])))"

text \<open>
  The result handle. The \<^verbatim>\<open>recall\<close> closure is given by the variables it captures,
  \<^verbatim>\<open>method\<close> and \<^verbatim>\<open>options\<close>.
\<close>

record result_handle =
  response :: "axios_response option"
  error :: "aurora_promise_error option"
  hasError :: bool
  recall_method :: jsstring
  recall_options :: call_options

definition call_resume ::
  "pending \<Rightarrow> outcome \<Rightarrow> aurora \<Rightarrow> (js_error + result_handle) \<times> aurora \<times> event list" where
  "call_resume p out s =
     (let s' = release s;
          cleanup = invoke (pend_loadingCallback p) False
      in case out of
           Fulfilled r \<Rightarrow>
             (Inr \<lparr>response = Some r, error = None, hasError = False,
                   recall_method = pend_method p, recall_options = pend_options p\<rparr>,
              s', cleanup)
         | RejectedAxios err \<Rightarrow>
             (case AuroraPromiseError err of
                Inl thrown \<Rightarrow> (Inl thrown, s', cleanup)
              | Inr e \<Rightarrow>
                  (Inr \<lparr>response = None, error = Some e, hasError = True,
                        recall_method = pend_method p, recall_options = pend_options p\<rparr>,
                   s', cleanup))
         | RejectedOther err \<Rightarrow> (Inl err, s', cleanup))"

text \<open>
  \<^verbatim>\<open>recall(customOptions = {})\<close> is
  \<^verbatim>\<open>this.call(method, { ...options, ...customOptions })\<close>, on the state of the instance
  when it is invoked.
\<close>

definition recall ::
  "result_handle \<Rightarrow> call_options \<Rightarrow> aurora \<Rightarrow> begin_result \<times> aurora \<times> event list" where
  "recall h customOptions s =
     call_begin (recall_method h) (spread (recall_options h) customOptions) s"

section \<open>The default store\<close>

text \<open>
  \<^verbatim>\<open>addHeaders\<close> and \<^verbatim>\<open>removeHeaders\<close> (Aurora.ts, lines 109 to 126).
  \<^verbatim>\<open>Object.assign(target, source)\<close> writes every property of the source into the target;
  \<^verbatim>\<open>delete target[k]\<close> removes the property and does nothing when it is absent.
\<close>

definition addHeaders :: "jsobject \<Rightarrow> aurora \<Rightarrow> aurora" where
  "addHeaders headers s =
     s\<lparr>axiosInstance := (axiosInstance s)
         \<lparr>headers_common := headers_common (axiosInstance s) ++ headers\<rparr>\<rparr>"

definition removeHeaders :: "jsstring list option \<Rightarrow> aurora \<Rightarrow> aurora" where
  "removeHeaders headerNames s =
     (case headerNames of
        None \<Rightarrow> s\<lparr>axiosInstance := (axiosInstance s)\<lparr>headers_common := Map.empty\<rparr>\<rparr>
      | Some names \<Rightarrow>
          s\<lparr>axiosInstance := (axiosInstance s)
              \<lparr>headers_common :=
                 fold (\<lambda>header m. m(header := None)) names (headers_common (axiosInstance s))\<rparr>\<rparr>)"

text \<open>
  \<^verbatim>\<open>addParams\<close> and \<^verbatim>\<open>removeParams\<close> (Aurora.ts, lines 132 to 148) work on
  \<^verbatim>\<open>defaults.params\<close>, which no code of Aurora initialises. \<^verbatim>\<open>Object.assign\<close> on an
  \<^verbatim>\<open>undefined\<close> target and \<^verbatim>\<open>delete\<close> of a property of \<^verbatim>\<open>undefined\<close> throw
  a \<^verbatim>\<open>TypeError\<close>.
\<close>

definition addParams :: "jsobject \<Rightarrow> aurora \<Rightarrow> js_error + aurora" where
  "addParams ps s =
     (case params (axiosInstance s) of
        None \<Rightarrow> Inl TypeError
      | Some target \<Rightarrow>
          Inr (s\<lparr>axiosInstance := (axiosInstance s)\<lparr>params := Some (target ++ ps)\<rparr>\<rparr>))"

fun deleteParams :: "jsstring list \<Rightarrow> aurora \<Rightarrow> js_error + aurora" where
  "deleteParams [] s = Inr s"
| "deleteParams (param # rest) s =
     (case params (axiosInstance s) of
        None \<Rightarrow> Inl TypeError
      | Some target \<Rightarrow>
          deleteParams rest
            (s\<lparr>axiosInstance := (axiosInstance s)\<lparr>params := Some (target(param := None))\<rparr>\<rparr>))"

definition removeParams :: "jsstring list option \<Rightarrow> aurora \<Rightarrow> js_error + aurora" where
  "removeParams paramNames s =
     (let s1 = (if paramNames = None
                then s\<lparr>axiosInstance := (axiosInstance s)\<lparr>params := Some Map.empty\<rparr>\<rparr>
                else s)
      in case paramNames of None \<Rightarrow> Inr s1 | Some names \<Rightarrow> deleteParams names s1)"

text \<open>
  \<^verbatim>\<open>setTimeout\<close> and \<^verbatim>\<open>removeTimeout\<close> (Aurora.ts, lines 154 to 163) write and delete
  \<^verbatim>\<open>defaults.timeout\<close>; \<^verbatim>\<open>abortAll\<close> (lines 168 to 170) invokes \<^verbatim>\<open>abort()\<close> on the default
  controller.
\<close>

definition setTimeout :: "number \<Rightarrow> aurora \<Rightarrow> aurora" where
  "setTimeout t s = s\<lparr>axiosInstance := (axiosInstance s)\<lparr>timeout := Some t\<rparr>\<rparr>"

definition removeTimeout :: "aurora \<Rightarrow> aurora" where
  "removeTimeout s = s\<lparr>axiosInstance := (axiosInstance s)\<lparr>timeout := None\<rparr>\<rparr>"

definition abortAll :: "aurora \<Rightarrow> aurora \<times> event list" where
  "abortAll s = (s, [Abort (defaultAbortController s)])"

section \<open>Interleaved operations on one instance\<close>

text \<open>
  The operations run on one thread and a call is suspended only at its \<^verbatim>\<open>await\<close>. A
  system is the instance, the calls suspended there, and the events so far. An action
  invokes \<^verbatim>\<open>call\<close> (a recall, and \<^verbatim>\<open>get\<close>, \<^verbatim>\<open>post\<close>, \<^verbatim>\<open>put\<close> and \<^verbatim>\<open>delete\<close>, are such
  invocations), settles the transport promise of the suspended call at a position (there
  is nothing to settle at a position beyond the suspended calls), or invokes one of the
  other public operations of the instance. An operation that throws leaves the instance
  as it found it.
\<close>

record system =
  inst :: aurora
  inflight :: "pending list"
  events :: "event list"

datatype action =
  Call jsstring call_options
| Settle nat outcome
| SetLimit "number option"
| AddHeaders jsobject
| RemoveHeaders "jsstring list option"
| AddParams jsobject
| RemoveParams "jsstring list option"
| SetTimeout number
| RemoveTimeout
| AbortAll

definition boot :: "aurora \<Rightarrow> system" where
  "boot a = \<lparr>inst = a, inflight = [], events = []\<rparr>"

fun step :: "action \<Rightarrow> system \<Rightarrow> system" where
  "step (Call meth opts) \<sigma> =
     (case call_begin meth opts (inst \<sigma>) of
        (Threw err, s', ev) \<Rightarrow> \<sigma>\<lparr>inst := s', events := events \<sigma> @ ev\<rparr>
      | (Awaiting p, s', ev) \<Rightarrow>
          \<sigma>\<lparr>inst := s', inflight := inflight \<sigma> @ [p], events := events \<sigma> @ ev\<rparr>)"
| "step (Settle i out) \<sigma> =
     (if i < length (inflight \<sigma>)
      then (case call_resume (inflight \<sigma> ! i) out (inst \<sigma>) of
              (res, s', ev) \<Rightarrow>
                \<sigma>\<lparr>inst := s',
                  inflight := take i (inflight \<sigma>) @ drop (Suc i) (inflight \<sigma>),
                  events := events \<sigma> @ ev\<rparr>)
      else \<sigma>)"
| "step (SetLimit limit) \<sigma> = \<sigma>\<lparr>inst := setMaxConcurrentRequestsLimit limit (inst \<sigma>)\<rparr>"
| "step (AddHeaders headers) \<sigma> = \<sigma>\<lparr>inst := addHeaders headers (inst \<sigma>)\<rparr>"
| "step (RemoveHeaders headerNames) \<sigma> = \<sigma>\<lparr>inst := removeHeaders headerNames (inst \<sigma>)\<rparr>"
| "step (AddParams ps) \<sigma> =
     (case addParams ps (inst \<sigma>) of Inl err \<Rightarrow> \<sigma> | Inr s' \<Rightarrow> \<sigma>\<lparr>inst := s'\<rparr>)"
| "step (RemoveParams paramNames) \<sigma> =
     (case removeParams paramNames (inst \<sigma>) of Inl err \<Rightarrow> \<sigma> | Inr s' \<Rightarrow> \<sigma>\<lparr>inst := s'\<rparr>)"
| "step (SetTimeout t) \<sigma> = \<sigma>\<lparr>inst := setTimeout t (inst \<sigma>)\<rparr>"
| "step RemoveTimeout \<sigma> = \<sigma>\<lparr>inst := removeTimeout (inst \<sigma>)\<rparr>"
| "step AbortAll \<sigma> =
     (case abortAll (inst \<sigma>) of (s', ev) \<Rightarrow> \<sigma>\<lparr>inst := s', events := events \<sigma> @ ev\<rparr>)"

definition run :: "action list \<Rightarrow> system \<Rightarrow> system" where
  "run acts \<sigma> = fold step acts \<sigma>"

section \<open>Inputs of the examples\<close>

text \<open>
  The defaults of an Axios instance that was given no base URL, no common headers and no
  default parameters, and instances constructed on it as in the README: with a base URL
  and a limit of five, and with no argument at all. Then the defaults of an Axios
  instance whose common headers hold \<^verbatim>\<open>Accept\<close>, and an instance constructed on it with
  no argument.
\<close>

definition plain_axios :: axios_defaults where
  "plain_axios =
     \<lparr>baseURL = None, headers_common = Map.empty, params = None, timeout = None\<rparr>"

definition api_instance :: aurora where
  "api_instance = Aurora (Some (js ''https://api.example.com'')) (Some (Finite 5)) 0 plain_axios"

definition bare_instance :: aurora where
  "bare_instance = Aurora None None 0 plain_axios"

definition stock_axios :: axios_defaults where
  "stock_axios =
     \<lparr>baseURL = None,
      headers_common = [js ''Accept'' \<mapsto> VString (js ''application/json, text/plain, */*'')],
      params = None, timeout = None\<rparr>"

definition stock_instance :: aurora where
  "stock_instance = Aurora None None 0 stock_axios"

text \<open>
  A request for \<^verbatim>\<open>/api/data\<close> with loading callback 7, the call it leaves suspended, a
  response, and the handle of the call once the transport answered with that response.
\<close>

definition spinner_request :: call_options where
  "spinner_request =
     no_options\<lparr>endpoint := Given (js ''/api/data''), loadingCallback := Given 7\<rparr>"

definition data_request :: pending where
  "data_request = \<lparr>pend_method = js ''get'',
     pend_options = no_options\<lparr>endpoint := Given (js ''/api/data'')\<rparr>,
     pend_loadingCallback = Some 7\<rparr>"

definition ok_response :: axios_response where
  "ok_response = \<lparr>res_status = Some (Finite 200), res_data = VString (js ''ok'')\<rparr>"

definition data_handle :: result_handle where
  "data_handle = \<lparr>response = Some ok_response, error = None, hasError = False,
     recall_method = js ''get'',
     recall_options = no_options\<lparr>endpoint := Given (js ''/api/data'')\<rparr>\<rparr>"

text \<open>
  Two transport errors that carry no request object: the cancellation raised before a
  request is created, and the rejection of an ill-formed option.
\<close>

definition canceled_error :: axios_error where
  "canceled_error = \<lparr>ae_message = js ''canceled'', ae_code = Some (js ''ERR_CANCELED''),
     ae_request = None, ae_response = None, ae_config = None\<rparr>"

definition bad_option_error :: axios_error where
  "bad_option_error = \<lparr>ae_message = js ''option must be a boolean'',
     ae_code = Some (js ''ERR_BAD_OPTION_VALUE''),
     ae_request = None, ae_response = None, ae_config = None\<rparr>"

section \<open>Properties of URL normalisation\<close>

lemma dropWhile_rev_Nil: "dropWhile P (rev (dropWhile P s)) = [] \<longleftrightarrow> dropWhile P s = []"
proof
  assume a: "dropWhile P (rev (dropWhile P s)) = []"
  show "dropWhile P s = []"
  proof (cases "dropWhile P s")
    case Nil then show ?thesis .
  next
    case (Cons x xs)
    then have "\<not> P x" using hd_dropWhile [of P s] by simp
    moreover from a have "\<forall>y\<in>set (rev (dropWhile P s)). P y"
      by (simp only: dropWhile_eq_Nil_conv)
    ultimately show ?thesis using Cons by simp
  qed
next
  assume "dropWhile P s = []"
  then show "dropWhile P (rev (dropWhile P s)) = []" by (simp del: dropWhile_eq_Nil_conv)
qed

lemma trim_Nil_iff: "trim s = [] \<longleftrightarrow> list_all isWhiteSpace s"
proof -
  have "trim s = [] \<longleftrightarrow> dropWhile isWhiteSpace s = []"
    unfolding trim_def rev_is_Nil_conv by (rule dropWhile_rev_Nil)
  also have "\<dots> \<longleftrightarrow> list_all isWhiteSpace s"
    by (simp add: list_all_iff)
  finally show ?thesis .
qed

lemma all_slash_replicate:
  "list_all (\<lambda>d. d = slash) cs \<longleftrightarrow> cs = replicate (length cs) slash"
  by (induction cs) auto

lemma replaceTrailingSlashes_decomp:
  "\<exists>n. s = replaceTrailingSlashes s @ replicate n slash"
proof (induction s)
  case Nil
  show ?case by simp
next
  case (Cons c cs)
  show ?case
  proof (cases "c = slash \<and> list_all (\<lambda>d. d = slash) cs")
    case True
    then have "c # cs = replicate (Suc (length cs)) slash"
      using all_slash_replicate [of cs] by simp
    moreover from True have "replaceTrailingSlashes (c # cs) = []" by simp
    ultimately have "c # cs = replaceTrailingSlashes (c # cs) @ replicate (Suc (length cs)) slash"
      by (simp only: append_Nil)
    then show ?thesis ..
  next
    case False
    from Cons.IH obtain n where n: "cs = replaceTrailingSlashes cs @ replicate n slash" ..
    from False have "replaceTrailingSlashes (c # cs) = c # replaceTrailingSlashes cs"
      by auto
    with n have "c # cs = replaceTrailingSlashes (c # cs) @ replicate n slash"
      by simp
    then show ?thesis ..
  qed
qed

lemma replaceTrailingSlashes_Nil:
  "replaceTrailingSlashes s = [] \<longleftrightarrow> list_all (\<lambda>d. d = slash) s"
  by (induction s) auto

lemma replaceTrailingSlashes_no_trailing:
  "replaceTrailingSlashes s \<noteq> p @ [slash]"
proof (induction s arbitrary: p)
  case Nil
  show ?case by simp
next
  case (Cons c cs)
  show ?case
  proof (cases "c = slash \<and> list_all (\<lambda>d. d = slash) cs")
    case True
    then show ?thesis by simp
  next
    case False
    then have eq: "replaceTrailingSlashes (c # cs) = c # replaceTrailingSlashes cs"
      by auto
    show ?thesis
    proof (cases p)
      case Nil
      show ?thesis
      proof
        assume "replaceTrailingSlashes (c # cs) = p @ [slash]"
        with eq Nil have c: "c = slash" and r: "replaceTrailingSlashes cs = []"
          by simp_all
        from r have "list_all (\<lambda>d. d = slash) cs"
          by (simp only: replaceTrailingSlashes_Nil)
        with c False show False by simp
      qed
    next
      case (Cons q qs)
      with eq Cons.IH [of qs] show ?thesis by simp
    qed
  qed
qed

lemma replaceLeadingSlashes_decomp:
  "\<exists>m. s = replicate m slash @ replaceLeadingSlashes s"
proof -
  have "list_all (\<lambda>d. d = slash) (takeWhile (\<lambda>c. c = slash) s)"
    by (simp add: list_all_iff) (auto dest: set_takeWhileD)
  then have "takeWhile (\<lambda>c. c = slash) s
      = replicate (length (takeWhile (\<lambda>c. c = slash) s)) slash"
    by (simp only: all_slash_replicate [symmetric])
  moreover have "s = takeWhile (\<lambda>c. c = slash) s @ dropWhile (\<lambda>c. c = slash) s"
    by simp
  ultimately have "s = replicate (length (takeWhile (\<lambda>c. c = slash) s)) slash
      @ replaceLeadingSlashes s"
    unfolding replaceLeadingSlashes_def by simp
  then show ?thesis ..
qed

lemma replaceLeadingSlashes_no_leading:
  "replaceLeadingSlashes s \<noteq> slash # q"
proof
  assume a: "replaceLeadingSlashes s = slash # q"
  then have "dropWhile (\<lambda>c. c = slash) s \<noteq> []" and "hd (dropWhile (\<lambda>c. c = slash) s) = slash"
    by (simp_all add: replaceLeadingSlashes_def)
  then show False using hd_dropWhile [of "\<lambda>c. c = slash" s] by simp
qed

text \<open>
  Claim C3. \<open>normalizeUrl\<close> throws \<^verbatim>\<open>AuroraInstanceError("URL cannot be null")\<close> exactly
  when both inputs are empty after \<^verbatim>\<open>trim\<close>; otherwise it returns the cleaned endpoint
  alone when the cleaned base is empty, and cleaned base, a slash and cleaned endpoint
  otherwise. The cleaned base is the base without its trailing run of slashes (the base
  is the cleaned base followed by slashes only, and the cleaned base does not end in a
  slash); the cleaned endpoint is the endpoint without its leading run of slashes. The
  three examples of the specification hold.
\<close>

theorem normalizeUrl_contract:
  "normalizeUrl base ep =
     (if trim base = [] \<and> trim ep = []
      then Inl (AuroraInstanceError (js ''URL cannot be null''))
      else if replaceTrailingSlashes base = [] then Inr (replaceLeadingSlashes ep)
      else Inr (replaceTrailingSlashes base @ js ''/'' @ replaceLeadingSlashes ep))
   \<and> (\<exists>n. base = replaceTrailingSlashes base @ replicate n slash)
   \<and> (\<nexists>p. replaceTrailingSlashes base = p @ [slash])
   \<and> (\<exists>m. ep = replicate m slash @ replaceLeadingSlashes ep)
   \<and> (\<nexists>q. replaceLeadingSlashes ep = slash # q)
   \<and> normalizeUrl (js ''https://api.x.com/'') (js ''/v1/items'')
       = Inr (js ''https://api.x.com/v1/items'')
   \<and> normalizeUrl [] [] = Inl (AuroraInstanceError (js ''URL cannot be null''))
   \<and> normalizeUrl [] (js ''v1/items'') = Inr (js ''v1/items'')"
proof (intro conjI)
  show "normalizeUrl base ep =
     (if trim base = [] \<and> trim ep = []
      then Inl (AuroraInstanceError (js ''URL cannot be null''))
      else if replaceTrailingSlashes base = [] then Inr (replaceLeadingSlashes ep)
      else Inr (replaceTrailingSlashes base @ js ''/'' @ replaceLeadingSlashes ep))"
    by (simp add: normalizeUrl_def Let_def)
  show "\<exists>n. base = replaceTrailingSlashes base @ replicate n slash"
    by (rule replaceTrailingSlashes_decomp)
  show "\<nexists>p. replaceTrailingSlashes base = p @ [slash]"
    by (simp add: replaceTrailingSlashes_no_trailing)
  show "\<exists>m. ep = replicate m slash @ replaceLeadingSlashes ep"
    by (rule replaceLeadingSlashes_decomp)
  show "\<nexists>q. replaceLeadingSlashes ep = slash # q"
    by (simp add: replaceLeadingSlashes_no_leading)
  show "normalizeUrl (js ''https://api.x.com/'') (js ''/v1/items'')
     = Inr (js ''https://api.x.com/v1/items'')"
    by (simp add: normalizeUrl_def trim_def isWhiteSpace_def replaceLeadingSlashes_def
        js_def slash_def)
  show "normalizeUrl [] [] = Inl (AuroraInstanceError (js ''URL cannot be null''))"
    by (simp add: normalizeUrl_def trim_def)
  show "normalizeUrl [] (js ''v1/items'') = Inr (js ''v1/items'')"
    by (simp add: normalizeUrl_def trim_def isWhiteSpace_def replaceLeadingSlashes_def
        js_def slash_def)
qed

theorem normalizeUrl_contract_witness:
  "normalizeUrl (js ''https://api.x.com///'') (js ''//v1/items/'')
     = Inr (js ''https://api.x.com/v1/items/'')
   \<and> normalizeUrl (js ''/'') (js '' '') = Inr (js '' '')
   \<and> normalizeUrl (js '' '') [0x3000, 0x0A] = Inl (AuroraInstanceError (js ''URL cannot be null''))"
  using normalizeUrl_contract [of "js ''https://api.x.com///''" "js ''//v1/items/''"]
    normalizeUrl_contract [of "js ''/''" "js '' ''"]
    normalizeUrl_contract [of "js '' ''" "[0x3000, 0x0A]"]
  by (simp add: trim_def isWhiteSpace_def replaceLeadingSlashes_def js_def slash_def)

section \<open>Properties of the request limit\<close>

text \<open>
  Claim C9. \<open>setMaxConcurrentRequestsLimit\<close> stores a positive finite limit as it is, and
  stores the unbounded limit for a limit that is zero, negative (finite or not) or absent.
  It changes nothing else.
\<close>

theorem setMaxConcurrentRequestsLimit_contract:
  "(0 < r \<longrightarrow> requests_max (setMaxConcurrentRequestsLimit (Some (Finite r)) s) = Finite r)
   \<and> (r \<le> 0 \<longrightarrow>
        requests_max (setMaxConcurrentRequestsLimit (Some (Finite r)) s) = PosInfinity)
   \<and> requests_max (setMaxConcurrentRequestsLimit (Some NegInfinity) s) = PosInfinity
   \<and> requests_max (setMaxConcurrentRequestsLimit None s) = PosInfinity
   \<and> requests_current (setMaxConcurrentRequestsLimit limit s) = requests_current s
   \<and> axiosInstance (setMaxConcurrentRequestsLimit limit s) = axiosInstance s"
  by (simp add: setMaxConcurrentRequestsLimit_def truthy_def)

theorem setMaxConcurrentRequestsLimit_contract_witness:
  "requests_max (setMaxConcurrentRequestsLimit (Some (Finite 5)) bare_instance) = Finite 5
   \<and> requests_max (setMaxConcurrentRequestsLimit (Some (Finite 0)) api_instance) = PosInfinity
   \<and> requests_max (setMaxConcurrentRequestsLimit (Some (Finite (- 2))) api_instance)
       = PosInfinity"
  using setMaxConcurrentRequestsLimit_contract [of 5 bare_instance]
    setMaxConcurrentRequestsLimit_contract [of 0 api_instance]
    setMaxConcurrentRequestsLimit_contract [of "- 2" api_instance]
  by simp

lemma js_gt_not_ge: "js_gt b a \<Longrightarrow> \<not> js_ge a b"
  by (cases a; cases b) auto

lemma Aurora_requests:
  "requests_current (Aurora url limit ctl ax) = 0"
  "requests_max (Aurora url limit ctl ax) = Finite r \<Longrightarrow> 0 < r"
  by (auto simp add: Aurora_def setMaxConcurrentRequestsLimit_def truthy_def
      split: option.splits number.splits if_splits elim: js_gt.elims)

lemma api_instance_simps:
  "requests_current api_instance = 0" "requests_max api_instance = Finite 5"
  "baseURL (axiosInstance api_instance) = Some (js ''https://api.example.com'')"
  "defaultAbortController api_instance = 0"
  by (simp_all add: api_instance_def Aurora_def setMaxConcurrentRequestsLimit_def truthy_def
      plain_axios_def)

lemma bare_instance_simps:
  "requests_current bare_instance = 0" "requests_max bare_instance = PosInfinity"
  "baseURL (axiosInstance bare_instance) = Some []"
  by (simp_all add: bare_instance_def Aurora_def setMaxConcurrentRequestsLimit_def truthy_def
      plain_axios_def)

section \<open>Properties of a call\<close>

subsection \<open>The three ways through the synchronous part\<close>

lemma resolve_url_current [simp]:
  "resolve_url options (s\<lparr>requests_current := n\<rparr>) = resolve_url options s"
  by (simp add: resolve_url_def)

lemma resolve_url_error:
  "resolve_url options s = Inl err \<Longrightarrow> err = AuroraInstanceError (js ''URL cannot be null'')"
  by (auto simp add: resolve_url_def normalizeUrl_def Let_def split: if_splits)

lemma call_begin_rejected:
  "js_ge (Finite (of_int (requests_current s))) (requests_max s) \<Longrightarrow>
   call_begin meth opts s = (Threw (AuroraInstanceError (js ''Request limit exceeded'')), s, [])"
  by (simp add: call_begin_def admit_def Let_def)

lemma call_begin_dispatched:
  "\<not> js_ge (Finite (of_int (requests_current s))) (requests_max s) \<Longrightarrow>
   resolve_url (rest_options opts) s = Inr url \<Longrightarrow>
   call_begin meth opts s
     = (Awaiting \<lparr>pend_method = meth, pend_options = rest_options opts,
                  pend_loadingCallback = local_loadingCallback opts\<rparr>,
        s\<lparr>requests_current := requests_current s + 1\<rparr>,
        invoke (local_loadingCallback opts) True
        @ [Transport (axiosInstance s)
             \<lparr>cfg_options = rest_options opts, cfg_url = url,
              cfg_signal = local_abortController opts s\<rparr>])"
  by (simp add: call_begin_def admit_def Let_def local_abortController_def)

lemma call_begin_url_throws:
  "\<not> js_ge (Finite (of_int (requests_current s))) (requests_max s) \<Longrightarrow>
   resolve_url (rest_options opts) s = Inl err \<Longrightarrow>
   call_begin meth opts s = (Threw err, s, invoke (local_loadingCallback opts) False)"
  by (simp add: call_begin_def admit_def release_def Let_def)

lemma call_begin_cases:
  "call_begin meth opts s = (r, s', ev) \<Longrightarrow>
     (\<exists>e. r = Threw e \<and> s' = s)
     \<or> (\<exists>p. r = Awaiting p
           \<and> \<not> js_ge (Finite (of_int (requests_current s))) (requests_max s)
           \<and> s' = s\<lparr>requests_current := requests_current s + 1\<rparr>)"
  by (auto simp add: call_begin_def admit_def release_def Let_def split: if_splits sum.splits)

lemma call_begin_pending:
  "call_begin meth opts s = (Awaiting p, s', ev) \<Longrightarrow>
   p = \<lparr>pend_method = meth, pend_options = rest_options opts,
        pend_loadingCallback = local_loadingCallback opts\<rparr>"
  by (auto simp add: call_begin_def admit_def Let_def split: if_splits sum.splits)

lemma call_resume_events:
  "snd (snd (call_resume p out s)) = invoke (pend_loadingCallback p) False"
  by (simp add: call_resume_def Let_def split: outcome.split sum.split)

lemma call_resume_state:
  "fst (snd (call_resume p out s)) = s\<lparr>requests_current := requests_current s - 1\<rparr>"
  by (simp add: call_resume_def release_def Let_def split: outcome.split sum.split)

lemma call_resume_handle:
  "call_resume p out s = (Inr h, s', ev) \<Longrightarrow>
   recall_method h = pend_method p \<and> recall_options h = pend_options p"
  by (auto simp add: call_resume_def Let_def split: outcome.splits sum.splits)

lemma call_begin_exits:
  "call_begin meth opts s = (Threw e, s', ev) \<Longrightarrow>
     (admit s = Inl e \<and> s' = s)
     \<or> (\<exists>s1. admit s = Inr s1 \<and> resolve_url (rest_options opts) s1 = Inl e
              \<and> s' = release s1 \<and> s' = s)"
  by (auto simp add: call_begin_def admit_def release_def Let_def split: if_splits sum.splits)

lemma call_begin_suspends:
  "call_begin meth opts s = (Awaiting p, s', ev) \<Longrightarrow> admit s = Inr s'"
  by (auto simp add: call_begin_def admit_def Let_def split: if_splits sum.splits)

lemma call_resume_release: "fst (snd (call_resume p out s)) = release s"
  by (simp add: call_resume_state release_def)

subsection \<open>The example request\<close>

lemma api_data_url:
  "normalizeUrl (js ''https://api.example.com'') (js ''/api/data'')
     = Inr (js ''https://api.example.com/api/data'')"
  by (simp add: normalizeUrl_def trim_def isWhiteSpace_def replaceLeadingSlashes_def
      js_def slash_def)

lemma rest_spinner_request:
  "rest_options spinner_request = no_options\<lparr>endpoint := Given (js ''/api/data'')\<rparr>"
  by (simp add: rest_options_def spinner_request_def no_options_def)

lemma spinner_request_begin:
  assumes "baseURL (axiosInstance s) = Some (js ''https://api.example.com'')"
  shows "call_begin (js ''get'') spinner_request s =
     (if js_ge (Finite (of_int (requests_current s))) (requests_max s)
      then (Threw (AuroraInstanceError (js ''Request limit exceeded'')), s, [])
      else (Awaiting data_request, s\<lparr>requests_current := requests_current s + 1\<rparr>,
            [LoadingCallback 7 True,
             Transport (axiosInstance s)
               \<lparr>cfg_options = no_options\<lparr>endpoint := Given (js ''/api/data'')\<rparr>,
                cfg_url = js ''https://api.example.com/api/data'',
                cfg_signal = Some (defaultAbortController s)\<rparr>]))"
proof (cases "js_ge (Finite (of_int (requests_current s))) (requests_max s)")
  case True
  then show ?thesis by (simp add: call_begin_rejected)
next
  case False
  have "resolve_url (rest_options spinner_request) s
      = Inr (js ''https://api.example.com/api/data'')"
    by (simp add: rest_spinner_request resolve_url_def assms api_data_url no_options_def)
  from call_begin_dispatched [OF False this, of "js ''get''"] False rest_spinner_request
  show ?thesis
    by (simp add: data_request_def local_loadingCallback_def local_abortController_def
        spinner_request_def no_options_def invoke_def)
qed

lemma data_request_fulfilled:
  "call_resume data_request (Fulfilled ok_response) s
     = (Inr data_handle, s\<lparr>requests_current := requests_current s - 1\<rparr>,
        [LoadingCallback 7 False])"
  by (simp add: call_resume_def release_def data_request_def data_handle_def invoke_def)

subsection \<open>Admission\<close>

text \<open>
  Claim C2. When \<^verbatim>\<open>current >= max\<close> holds at entry, admission fails and the call throws
  \<^verbatim>\<open>AuroraInstanceError("Request limit exceeded")\<close> before its first suspension, with the
  instance unchanged and no event: no callback and no transport invocation, whatever the
  options and the base URL are. When \<^verbatim>\<open>current < max\<close> holds, admission succeeds with
  \<^verbatim>\<open>current\<close> incremented by one, the call does not throw that error, and when the URL
  resolves the call is suspended at the transport with the incremented counter.
  (\<^verbatim>\<open>call\<close> is an \<^verbatim>\<open>async\<close> function: what it throws rejects the promise it returns.)
\<close>

theorem admission_contract:
  "(js_ge (Finite (of_int (requests_current s))) (requests_max s) \<longrightarrow>
      admit s = Inl (AuroraInstanceError (js ''Request limit exceeded''))
      \<and> call_begin meth opts s
          = (Threw (AuroraInstanceError (js ''Request limit exceeded'')), s, []))
   \<and> (js_gt (requests_max s) (Finite (of_int (requests_current s))) \<longrightarrow>
        admit s = Inr (s\<lparr>requests_current := requests_current s + 1\<rparr>)
        \<and> fst (call_begin meth opts s)
            \<noteq> Threw (AuroraInstanceError (js ''Request limit exceeded''))
        \<and> (\<forall>url. resolve_url (rest_options opts) s = Inr url \<longrightarrow>
             (\<exists>p ev. call_begin meth opts s
                = (Awaiting p, s\<lparr>requests_current := requests_current s + 1\<rparr>, ev))))"
proof (intro conjI impI allI)
  assume full: "js_ge (Finite (of_int (requests_current s))) (requests_max s)"
  then show "admit s = Inl (AuroraInstanceError (js ''Request limit exceeded''))"
    by (simp add: admit_def)
  from full show "call_begin meth opts s
        = (Threw (AuroraInstanceError (js ''Request limit exceeded'')), s, [])"
    by (rule call_begin_rejected)
next
  assume "js_gt (requests_max s) (Finite (of_int (requests_current s)))"
  then have adm: "\<not> js_ge (Finite (of_int (requests_current s))) (requests_max s)"
    by (rule js_gt_not_ge)
  then show "admit s = Inr (s\<lparr>requests_current := requests_current s + 1\<rparr>)"
    by (simp add: admit_def)
  have ne: "js ''URL cannot be null'' \<noteq> js ''Request limit exceeded''"
    by (simp add: js_def)
  show "fst (call_begin meth opts s)
      \<noteq> Threw (AuroraInstanceError (js ''Request limit exceeded''))"
  proof (cases "resolve_url (rest_options opts) s")
    case (Inl err)
    with adm ne resolve_url_error [OF Inl] show ?thesis
      by (simp add: call_begin_url_throws)
  next
    case (Inr url)
    with adm show ?thesis by (simp add: call_begin_dispatched)
  qed
next
  fix url
  assume "js_gt (requests_max s) (Finite (of_int (requests_current s)))"
    and url: "resolve_url (rest_options opts) s = Inr url"
  then have "\<not> js_ge (Finite (of_int (requests_current s))) (requests_max s)"
    by (simp add: js_gt_not_ge)
  from call_begin_dispatched [OF this url]
  show "\<exists>p ev. call_begin meth opts s
                = (Awaiting p, s\<lparr>requests_current := requests_current s + 1\<rparr>, ev)"
    by blast
qed

theorem admission_contract_witness:
  "js_ge (Finite (of_int (requests_current (api_instance\<lparr>requests_current := 5\<rparr>))))
      (requests_max (api_instance\<lparr>requests_current := 5\<rparr>))
   \<and> call_begin (js ''get'') spinner_request (api_instance\<lparr>requests_current := 5\<rparr>)
     = (Threw (AuroraInstanceError (js ''Request limit exceeded'')),
        api_instance\<lparr>requests_current := 5\<rparr>, [])
   \<and> js_gt (requests_max (api_instance\<lparr>requests_current := 4\<rparr>))
        (Finite (of_int (requests_current (api_instance\<lparr>requests_current := 4\<rparr>))))
   \<and> admit (api_instance\<lparr>requests_current := 4\<rparr>) = Inr (api_instance\<lparr>requests_current := 5\<rparr>)
   \<and> fst (call_begin (js ''get'') spinner_request (api_instance\<lparr>requests_current := 4\<rparr>))
     = Awaiting data_request"
proof -
  have full: "js_ge (Finite (of_int (requests_current (api_instance\<lparr>requests_current := 5\<rparr>))))
      (requests_max (api_instance\<lparr>requests_current := 5\<rparr>))"
    by (simp add: api_instance_simps)
  have room: "js_gt (requests_max (api_instance\<lparr>requests_current := 4\<rparr>))
        (Finite (of_int (requests_current (api_instance\<lparr>requests_current := 4\<rparr>))))"
    by (simp add: api_instance_simps)
  have "fst (call_begin (js ''get'') spinner_request (api_instance\<lparr>requests_current := 4\<rparr>))
     = Awaiting data_request"
    by (simp add: spinner_request_begin api_instance_simps)
  with full room
    admission_contract [of "api_instance\<lparr>requests_current := 5\<rparr>" "js ''get''" spinner_request]
    admission_contract [of "api_instance\<lparr>requests_current := 4\<rparr>" "js ''get''" spinner_request]
  show ?thesis by simp
qed

subsection \<open>The loading callback\<close>

text \<open>
  Claim C6, as the code has it. An admitted call with a loading callback \<open>f\<close>, when its
  URL resolves, invokes \<open>f\<close> with \<^verbatim>\<open>true\<close> once and then the transport, and when the
  transport settles, whatever the outcome, invokes \<open>f\<close> with \<^verbatim>\<open>false\<close> once and nothing
  else. When URL normalisation throws, the call invokes \<open>f\<close> with \<^verbatim>\<open>false\<close> once and
  never with \<^verbatim>\<open>true\<close>, and no transport is invoked.
\<close>

theorem loading_callback_contract:
  "\<not> js_ge (Finite (of_int (requests_current s))) (requests_max s) \<Longrightarrow>
   loadingCallback opts = Given f \<Longrightarrow>
     (\<forall>url. resolve_url (rest_options opts) s = Inr url \<longrightarrow>
        (\<exists>p s' cfg.
           call_begin meth opts s
             = (Awaiting p, s', [LoadingCallback f True, Transport (axiosInstance s) cfg])
           \<and> (\<forall>out t. snd (snd (call_resume p out t)) = [LoadingCallback f False])))
     \<and> (\<forall>err. resolve_url (rest_options opts) s = Inl err \<longrightarrow>
          call_begin meth opts s = (Threw err, s, [LoadingCallback f False]))"
proof (intro conjI allI impI)
  fix url
  assume adm: "\<not> js_ge (Finite (of_int (requests_current s))) (requests_max s)"
    and f: "loadingCallback opts = Given f"
    and url: "resolve_url (rest_options opts) s = Inr url"
  from f have cb: "local_loadingCallback opts = Some f"
    by (simp add: local_loadingCallback_def)
  let ?p = "\<lparr>pend_method = meth, pend_options = rest_options opts,
              pend_loadingCallback = local_loadingCallback opts\<rparr>"
  have "call_begin meth opts s
      = (Awaiting ?p, s\<lparr>requests_current := requests_current s + 1\<rparr>,
         [LoadingCallback f True,
          Transport (axiosInstance s)
            \<lparr>cfg_options = rest_options opts, cfg_url = url,
             cfg_signal = local_abortController opts s\<rparr>])"
    using call_begin_dispatched [OF adm url, of meth] cb by (simp add: invoke_def)
  moreover have "\<forall>out t. snd (snd (call_resume ?p out t)) = [LoadingCallback f False]"
    using cb by (simp add: call_resume_events invoke_def)
  ultimately show "\<exists>p s' cfg.
           call_begin meth opts s
             = (Awaiting p, s', [LoadingCallback f True, Transport (axiosInstance s) cfg])
           \<and> (\<forall>out t. snd (snd (call_resume p out t)) = [LoadingCallback f False])"
    by blast
next
  fix err
  assume adm: "\<not> js_ge (Finite (of_int (requests_current s))) (requests_max s)"
    and f: "loadingCallback opts = Given f"
    and err: "resolve_url (rest_options opts) s = Inl err"
  from f have cb: "local_loadingCallback opts = Some f"
    by (simp add: local_loadingCallback_def)
  from call_begin_url_throws [OF adm err, of meth] cb
  show "call_begin meth opts s = (Threw err, s, [LoadingCallback f False])"
    by (simp add: invoke_def)
qed

theorem loading_callback_contract_witness:
  "\<not> js_ge (Finite (of_int (requests_current api_instance))) (requests_max api_instance)
   \<and> loadingCallback spinner_request = Given 7
   \<and> snd (snd (call_begin (js ''get'') spinner_request api_instance))
     = [LoadingCallback 7 True,
        Transport (axiosInstance api_instance)
          \<lparr>cfg_options = no_options\<lparr>endpoint := Given (js ''/api/data'')\<rparr>,
           cfg_url = js ''https://api.example.com/api/data'', cfg_signal = Some 0\<rparr>]
   \<and> snd (snd (call_resume data_request (RejectedOther (OtherError 3))
        (api_instance\<lparr>requests_current := 1\<rparr>)))
     = [LoadingCallback 7 False]"
proof -
  have adm: "\<not> js_ge (Finite (of_int (requests_current api_instance))) (requests_max api_instance)"
    by (simp add: api_instance_simps)
  have f: "loadingCallback spinner_request = Given 7"
    by (simp add: spinner_request_def no_options_def)
  have url: "resolve_url (rest_options spinner_request) api_instance
      = Inr (js ''https://api.example.com/api/data'')"
    by (simp add: rest_spinner_request resolve_url_def api_instance_simps api_data_url
        no_options_def)
  have b: "call_begin (js ''get'') spinner_request api_instance
      = (Awaiting data_request, api_instance\<lparr>requests_current := 1\<rparr>,
         [LoadingCallback 7 True,
          Transport (axiosInstance api_instance)
            \<lparr>cfg_options = no_options\<lparr>endpoint := Given (js ''/api/data'')\<rparr>,
             cfg_url = js ''https://api.example.com/api/data'', cfg_signal = Some 0\<rparr>])"
    by (simp add: spinner_request_begin api_instance_simps)
  from loading_callback_contract [OF adm f, of "js ''get''"] url
  obtain p s' cfg where
    "call_begin (js ''get'') spinner_request api_instance
       = (Awaiting p, s', [LoadingCallback 7 True, Transport (axiosInstance api_instance) cfg])"
    and "\<forall>out t. snd (snd (call_resume p out t)) = [LoadingCallback 7 False]"
    by blast
  with b have "snd (snd (call_resume data_request (RejectedOther (OtherError 3))
        (api_instance\<lparr>requests_current := 1\<rparr>))) = [LoadingCallback 7 False]"
    by simp
  with adm f b show ?thesis by simp
qed

text \<open>
  Claim C6 as the specification states it fails: on an instance with no base URL, an
  admitted call with loading callback 7 and no endpoint throws from URL normalisation, and
  its only event is the callback invoked with \<^verbatim>\<open>false\<close>.
\<close>

theorem loading_callback_without_true:
  "\<not> js_ge (Finite (of_int (requests_current bare_instance))) (requests_max bare_instance)
   \<and> call_begin (js ''get'') (no_options\<lparr>loadingCallback := Given 7\<rparr>) bare_instance
     = (Threw (AuroraInstanceError (js ''URL cannot be null'')), bare_instance,
        [LoadingCallback 7 False])"
proof -
  have adm: "\<not> js_ge (Finite (of_int (requests_current bare_instance))) (requests_max bare_instance)"
    by (simp add: bare_instance_simps)
  have "resolve_url (rest_options (no_options\<lparr>loadingCallback := Given 7\<rparr>)) bare_instance
      = Inl (AuroraInstanceError (js ''URL cannot be null''))"
    by (simp add: resolve_url_def rest_options_def no_options_def bare_instance_simps
        normalizeUrl_def trim_def)
  from call_begin_url_throws [OF adm this, of "js ''get''"] adm
  show ?thesis
    by (simp add: local_loadingCallback_def invoke_def)
qed

subsection \<open>Recall\<close>

text \<open>
  Claim C5, as the code has it. The handle of a call captures the method of the call and
  its options without \<^verbatim>\<open>abortController\<close> and \<^verbatim>\<open>loadingCallback\<close>, and
  \<^verbatim>\<open>recall(customOptions)\<close> is \<^verbatim>\<open>call\<close> with that method and the spread of those captured
  options and \<^verbatim>\<open>customOptions\<close>, run on the instance as it is when \<^verbatim>\<open>recall\<close> is invoked:
  it is rejected when the limit is reached at that moment, and otherwise, when the URL
  resolves, it invokes the transport under the defaults the instance holds at that
  moment, with only the loading callback and the controller override of
  \<^verbatim>\<open>customOptions\<close>.
\<close>

theorem recall_contract:
  "call_begin meth opts s0 = (Awaiting p, s1, ev) \<Longrightarrow>
   call_resume p out s2 = (Inr h, s3, ev') \<Longrightarrow>
     recall_method h = meth
     \<and> recall_options h = rest_options opts
     \<and> recall h custom s = call_begin meth (spread (rest_options opts) custom) s
     \<and> (js_ge (Finite (of_int (requests_current s))) (requests_max s) \<longrightarrow>
          recall h custom s
            = (Threw (AuroraInstanceError (js ''Request limit exceeded'')), s, []))
     \<and> (\<not> js_ge (Finite (of_int (requests_current s))) (requests_max s) \<longrightarrow>
          (\<forall>url. resolve_url (rest_options (spread (rest_options opts) custom)) s = Inr url \<longrightarrow>
             (\<exists>q. recall h custom s
                = (Awaiting q, s\<lparr>requests_current := requests_current s + 1\<rparr>,
                   invoke (local_loadingCallback custom) True
                   @ [Transport (axiosInstance s)
                        \<lparr>cfg_options = rest_options (spread (rest_options opts) custom),
                         cfg_url = url,
                         cfg_signal = local_abortController custom s\<rparr>]))))"
proof -
  assume b: "call_begin meth opts s0 = (Awaiting p, s1, ev)"
    and r: "call_resume p out s2 = (Inr h, s3, ev')"
  from call_begin_pending [OF b] call_resume_handle [OF r]
  have m: "recall_method h = meth" and o: "recall_options h = rest_options opts"
    by simp_all
  then have rc: "recall h custom s = call_begin meth (spread (rest_options opts) custom) s"
    by (simp add: recall_def)
  have cb: "local_loadingCallback (spread (rest_options opts) custom)
      = local_loadingCallback custom"
    by (simp add: local_loadingCallback_def spread_def spread_property_def rest_options_def
        split: property.split)
  have ac: "local_abortController (spread (rest_options opts) custom) s
      = local_abortController custom s"
    by (simp add: local_abortController_def spread_def spread_property_def rest_options_def
        split: property.split)
  show ?thesis
  proof (intro conjI impI allI)
    show "recall_method h = meth" by (rule m)
    show "recall_options h = rest_options opts" by (rule o)
    show "recall h custom s = call_begin meth (spread (rest_options opts) custom) s"
      by (rule rc)
  next
    assume "js_ge (Finite (of_int (requests_current s))) (requests_max s)"
    then show "recall h custom s
            = (Threw (AuroraInstanceError (js ''Request limit exceeded'')), s, [])"
      unfolding rc by (rule call_begin_rejected)
  next
    fix url
    assume adm: "\<not> js_ge (Finite (of_int (requests_current s))) (requests_max s)"
      and url: "resolve_url (rest_options (spread (rest_options opts) custom)) s = Inr url"
    from call_begin_dispatched [OF adm url, of meth] cb ac
    show "\<exists>q. recall h custom s
                = (Awaiting q, s\<lparr>requests_current := requests_current s + 1\<rparr>,
                   invoke (local_loadingCallback custom) True
                   @ [Transport (axiosInstance s)
                        \<lparr>cfg_options = rest_options (spread (rest_options opts) custom),
                         cfg_url = url,
                         cfg_signal = local_abortController custom s\<rparr>])"
      unfolding rc by simp
  qed
qed

lemma spinner_request_respread:
  "spread (rest_options spinner_request) (no_options\<lparr>loadingCallback := Given 7\<rparr>)
     = spinner_request"
  by (simp add: spread_def spread_property_def rest_options_def spinner_request_def
      no_options_def)

theorem recall_contract_witness:
  "call_begin (js ''get'') spinner_request api_instance
     = (Awaiting data_request, api_instance\<lparr>requests_current := 1\<rparr>,
        [LoadingCallback 7 True,
         Transport (axiosInstance api_instance)
           \<lparr>cfg_options = no_options\<lparr>endpoint := Given (js ''/api/data'')\<rparr>,
            cfg_url = js ''https://api.example.com/api/data'', cfg_signal = Some 0\<rparr>])
   \<and> call_resume data_request (Fulfilled ok_response) (api_instance\<lparr>requests_current := 1\<rparr>)
     = (Inr data_handle, api_instance\<lparr>requests_current := 0\<rparr>, [LoadingCallback 7 False])
   \<and> recall_options data_handle = rest_options spinner_request
   \<and> recall data_handle (no_options\<lparr>loadingCallback := Given 7\<rparr>)
        (api_instance\<lparr>requests_current := 5\<rparr>)
     = (Threw (AuroraInstanceError (js ''Request limit exceeded'')),
        api_instance\<lparr>requests_current := 5\<rparr>, [])
   \<and> recall data_handle (no_options\<lparr>loadingCallback := Given 7\<rparr>) api_instance
     = call_begin (js ''get'') spinner_request api_instance"
proof -
  have b: "call_begin (js ''get'') spinner_request api_instance
     = (Awaiting data_request, api_instance\<lparr>requests_current := 1\<rparr>,
        [LoadingCallback 7 True,
         Transport (axiosInstance api_instance)
           \<lparr>cfg_options = no_options\<lparr>endpoint := Given (js ''/api/data'')\<rparr>,
            cfg_url = js ''https://api.example.com/api/data'', cfg_signal = Some 0\<rparr>])"
    by (simp add: spinner_request_begin api_instance_simps)
  have r: "call_resume data_request (Fulfilled ok_response) (api_instance\<lparr>requests_current := 1\<rparr>)
     = (Inr data_handle, api_instance\<lparr>requests_current := 0\<rparr>, [LoadingCallback 7 False])"
    by (simp add: data_request_fulfilled)
  have full: "js_ge (Finite (of_int (requests_current (api_instance\<lparr>requests_current := 5\<rparr>))))
      (requests_max (api_instance\<lparr>requests_current := 5\<rparr>))"
    by (simp add: api_instance_simps)
  note c = recall_contract [OF b r, of "no_options\<lparr>loadingCallback := Given 7\<rparr>"]
  from c [of "api_instance\<lparr>requests_current := 5\<rparr>"] full
  have "recall data_handle (no_options\<lparr>loadingCallback := Given 7\<rparr>)
        (api_instance\<lparr>requests_current := 5\<rparr>)
     = (Threw (AuroraInstanceError (js ''Request limit exceeded'')),
        api_instance\<lparr>requests_current := 5\<rparr>, [])"
    by blast
  moreover from c [of api_instance]
  have "recall_options data_handle = rest_options spinner_request"
    and "recall data_handle (no_options\<lparr>loadingCallback := Given 7\<rparr>) api_instance
      = call_begin (js ''get'') spinner_request api_instance"
    by (simp_all add: spinner_request_respread)
  ultimately show ?thesis using b r by blast
qed

text \<open>
  Claim C5 as the specification states it fails: the call with \<open>spinner_request\<close> leaves
  the handle \<open>data_handle\<close>, and \<^verbatim>\<open>recall()\<close> on that handle invokes the transport without
  invoking loading callback 7, which \<^verbatim>\<open>call\<close> with the original options invokes.
\<close>

theorem recall_drops_loading_callback:
  "call_begin (js ''get'') spinner_request api_instance
     = (Awaiting data_request, api_instance\<lparr>requests_current := 1\<rparr>,
        [LoadingCallback 7 True,
         Transport (axiosInstance api_instance)
           \<lparr>cfg_options = no_options\<lparr>endpoint := Given (js ''/api/data'')\<rparr>,
            cfg_url = js ''https://api.example.com/api/data'', cfg_signal = Some 0\<rparr>])
   \<and> call_resume data_request (Fulfilled ok_response) (api_instance\<lparr>requests_current := 1\<rparr>)
     = (Inr data_handle, api_instance\<lparr>requests_current := 0\<rparr>, [LoadingCallback 7 False])
   \<and> snd (snd (recall data_handle no_options api_instance))
     = [Transport (axiosInstance api_instance)
           \<lparr>cfg_options = no_options\<lparr>endpoint := Given (js ''/api/data'')\<rparr>,
            cfg_url = js ''https://api.example.com/api/data'', cfg_signal = Some 0\<rparr>]
   \<and> snd (snd (call_begin (js ''get'') (spread spinner_request no_options) api_instance))
     = [LoadingCallback 7 True,
        Transport (axiosInstance api_instance)
           \<lparr>cfg_options = no_options\<lparr>endpoint := Given (js ''/api/data'')\<rparr>,
            cfg_url = js ''https://api.example.com/api/data'', cfg_signal = Some 0\<rparr>]
   \<and> recall data_handle no_options api_instance
     \<noteq> call_begin (js ''get'') (spread spinner_request no_options) api_instance"
proof -
  have adm: "\<not> js_ge (Finite (of_int (requests_current api_instance))) (requests_max api_instance)"
    by (simp add: api_instance_simps)
  have sp1: "spread spinner_request no_options = spinner_request"
    by (simp add: spread_def spread_property_def spinner_request_def no_options_def)
  have sp2: "spread (no_options\<lparr>endpoint := Given (js ''/api/data'')\<rparr>) no_options
      = no_options\<lparr>endpoint := Given (js ''/api/data'')\<rparr>"
    by (simp add: spread_def spread_property_def no_options_def)
  have rest2: "rest_options (no_options\<lparr>endpoint := Given (js ''/api/data'')\<rparr>)
      = no_options\<lparr>endpoint := Given (js ''/api/data'')\<rparr>"
    by (simp add: rest_options_def no_options_def)
  have url: "resolve_url (no_options\<lparr>endpoint := Given (js ''/api/data'')\<rparr>) api_instance
      = Inr (js ''https://api.example.com/api/data'')"
    by (simp add: resolve_url_def api_instance_simps api_data_url no_options_def)
  have c1: "call_begin (js ''get'') spinner_request api_instance
     = (Awaiting data_request, api_instance\<lparr>requests_current := 1\<rparr>,
        [LoadingCallback 7 True,
         Transport (axiosInstance api_instance)
           \<lparr>cfg_options = no_options\<lparr>endpoint := Given (js ''/api/data'')\<rparr>,
            cfg_url = js ''https://api.example.com/api/data'', cfg_signal = Some 0\<rparr>])"
    by (simp add: spinner_request_begin api_instance_simps)
  have c2: "call_resume data_request (Fulfilled ok_response) (api_instance\<lparr>requests_current := 1\<rparr>)
     = (Inr data_handle, api_instance\<lparr>requests_current := 0\<rparr>, [LoadingCallback 7 False])"
    by (simp add: data_request_fulfilled)
  have rc: "recall data_handle no_options api_instance
      = call_begin (js ''get'') (no_options\<lparr>endpoint := Given (js ''/api/data'')\<rparr>) api_instance"
    by (simp add: recall_def data_handle_def sp2)
  have c3: "recall data_handle no_options api_instance
     = (Awaiting \<lparr>pend_method = js ''get'',
          pend_options = no_options\<lparr>endpoint := Given (js ''/api/data'')\<rparr>,
          pend_loadingCallback = None\<rparr>, api_instance\<lparr>requests_current := 1\<rparr>,
        [Transport (axiosInstance api_instance)
           \<lparr>cfg_options = no_options\<lparr>endpoint := Given (js ''/api/data'')\<rparr>,
            cfg_url = js ''https://api.example.com/api/data'', cfg_signal = Some 0\<rparr>])"
    unfolding rc
    using call_begin_dispatched [OF adm, of "no_options\<lparr>endpoint := Given (js ''/api/data'')\<rparr>"
        _ "js ''get''"] url rest2
    by (simp add: local_loadingCallback_def
        local_abortController_def no_options_def invoke_def api_instance_simps)
  from c1 c2 c3 show ?thesis
    by (simp add: sp1)
qed

subsection \<open>Classification of transport failures\<close>

lemma call_resume_classified:
  "ae_request err = Some req \<Longrightarrow>
   \<exists>h e. fst (call_resume p (RejectedAxios err) s) = Inr h
     \<and> error h = Some e \<and> hasError h \<and> response h = None
     \<and> responseStatus e =
         (case ae_response err of None \<Rightarrow> Finite 500
          | Some r \<Rightarrow> (case res_status r of None \<Rightarrow> Finite 500 | Some st \<Rightarrow> st))"
  by (simp add: AuroraPromiseError_def call_resume_def)

lemma call_resume_rethrows:
  "fst (call_resume p (RejectedOther x) s) = Inl x"
  by (simp add: call_resume_def)

text \<open>
  Claim C10. The constructor of the classified error reads \<^verbatim>\<open>status\<close> from the request
  object of the failure whenever there is one, and for every \<^verbatim>\<open>AxiosError\<close> that carries
  no request object it throws a \<^verbatim>\<open>TypeError\<close>; the suspended call then throws that
  \<^verbatim>\<open>TypeError\<close> after its \<^verbatim>\<open>finally\<close> block instead of returning a handle.
\<close>

theorem classification_fails_without_request:
  "(ae_request err = None \<longrightarrow>
      AuroraPromiseError err = Inl TypeError
      \<and> call_resume p (RejectedAxios err) s
          = (Inl TypeError, release s, invoke (pend_loadingCallback p) False))
   \<and> (\<forall>req. ae_request err = Some req \<longrightarrow>
        (\<exists>e. AuroraPromiseError err = Inr e
           \<and> requestStatus e
               = (case req (js ''status'') of None \<Rightarrow> VUndefined | Some v \<Rightarrow> v)))"
  by (simp add: AuroraPromiseError_def call_resume_def)

theorem classification_fails_without_request_witness:
  "ae_request bad_option_error = None
   \<and> AuroraPromiseError bad_option_error = Inl TypeError
   \<and> fst (call_resume data_request (RejectedAxios bad_option_error) api_instance)
     = Inl TypeError"
  using classification_fails_without_request [of bad_option_error data_request api_instance]
  by (simp add: bad_option_error_def)

text \<open>
  Claim C4 fails on the code. A call admitted on an instance with one call in flight,
  whose transport rejects with the \<^verbatim>\<open>AxiosError\<close> of a cancellation raised before any
  request was created, throws a \<^verbatim>\<open>TypeError\<close>; it returns no handle with
  \<^verbatim>\<open>hasError = true\<close>.
\<close>

theorem canceled_call_throws:
  "call_resume data_request (RejectedAxios canceled_error)
       (api_instance\<lparr>requests_current := 1\<rparr>)
     = (Inl TypeError, api_instance\<lparr>requests_current := 0\<rparr>, [LoadingCallback 7 False])"
  by (simp add: call_resume_def release_def AuroraPromiseError_def canceled_error_def
      data_request_def invoke_def)

subsection \<open>The in-flight counter over interleaved operations\<close>

lemma step_Settle:
  "i < length (inflight \<sigma>) \<Longrightarrow>
   step (Settle i out) \<sigma>
     = \<sigma>\<lparr>inst := (inst \<sigma>)\<lparr>requests_current := requests_current (inst \<sigma>) - 1\<rparr>,
         inflight := take i (inflight \<sigma>) @ drop (Suc i) (inflight \<sigma>),
         events := events \<sigma> @ invoke (pend_loadingCallback (inflight \<sigma> ! i)) False\<rparr>"
proof -
  assume i: "i < length (inflight \<sigma>)"
  obtain res s' ev where c: "call_resume (inflight \<sigma> ! i) out (inst \<sigma>) = (res, s', ev)"
    by (cases "call_resume (inflight \<sigma> ! i) out (inst \<sigma>)") auto
  from call_resume_state [of "inflight \<sigma> ! i" out "inst \<sigma>"]
    call_resume_events [of "inflight \<sigma> ! i" out "inst \<sigma>"] c i
  show ?thesis by simp
qed

lemma step_Settle_none:
  "\<not> i < length (inflight \<sigma>) \<Longrightarrow> step (Settle i out) \<sigma> = \<sigma>"
  by simp

lemma addParams_requests:
  "addParams ps s = Inr s' \<Longrightarrow>
   requests_current s' = requests_current s \<and> requests_max s' = requests_max s"
  by (auto simp add: addParams_def split: option.splits)

lemma deleteParams_requests:
  "deleteParams names s = Inr s' \<Longrightarrow>
   requests_current s' = requests_current s \<and> requests_max s' = requests_max s"
proof (induction names arbitrary: s)
  case Nil
  then show ?case by simp
next
  case (Cons a names)
  then show ?case by (fastforce split: option.splits)
qed

lemma removeParams_requests:
  "removeParams names s = Inr s' \<Longrightarrow>
   requests_current s' = requests_current s \<and> requests_max s' = requests_max s"
  by (cases names) (auto simp add: removeParams_def dest: deleteParams_requests)

text \<open>
  Only \<open>Call\<close>, \<open>Settle\<close> and \<open>SetLimit\<close> touch \<^verbatim>\<open>requests\<close> or the suspended calls.
\<close>

lemma step_other:
  "(\<forall>meth opts. a \<noteq> Call meth opts) \<Longrightarrow> (\<forall>i out. a \<noteq> Settle i out) \<Longrightarrow>
   (\<forall>l. a \<noteq> SetLimit l) \<Longrightarrow>
   requests_current (inst (step a \<sigma>)) = requests_current (inst \<sigma>)
   \<and> requests_max (inst (step a \<sigma>)) = requests_max (inst \<sigma>)
   \<and> inflight (step a \<sigma>) = inflight \<sigma>"
  by (cases a)
     (auto simp add: addHeaders_def removeHeaders_def setTimeout_def removeTimeout_def
        abortAll_def split: option.splits sum.splits
        dest: addParams_requests removeParams_requests)

lemma step_SetLimit:
  "requests_current (inst (step (SetLimit l) \<sigma>)) = requests_current (inst \<sigma>)
   \<and> inflight (step (SetLimit l) \<sigma>) = inflight \<sigma>"
  by (simp add: setMaxConcurrentRequestsLimit_def)

lemma step_Call:
  "step (Call meth opts) \<sigma> = \<sigma>' \<Longrightarrow>
     requests_max (inst \<sigma>') = requests_max (inst \<sigma>)
     \<and> ((requests_current (inst \<sigma>') = requests_current (inst \<sigma>)
          \<and> inflight \<sigma>' = inflight \<sigma>)
        \<or> (\<not> js_ge (Finite (of_int (requests_current (inst \<sigma>)))) (requests_max (inst \<sigma>))
           \<and> requests_current (inst \<sigma>') = requests_current (inst \<sigma>) + 1
           \<and> length (inflight \<sigma>') = Suc (length (inflight \<sigma>))))"
proof -
  assume st: "step (Call meth opts) \<sigma> = \<sigma>'"
  obtain r s' ev where c: "call_begin meth opts (inst \<sigma>) = (r, s', ev)"
    by (cases "call_begin meth opts (inst \<sigma>)") auto
  from call_begin_cases [OF c] c st show ?thesis
    by (auto split: begin_result.splits)
qed

lemma step_counted:
  "requests_current (inst \<sigma>) = int (length (inflight \<sigma>)) \<Longrightarrow>
   requests_current (inst (step a \<sigma>)) = int (length (inflight (step a \<sigma>)))"
proof -
  assume inv: "requests_current (inst \<sigma>) = int (length (inflight \<sigma>))"
  consider (call) meth opts where "a = Call meth opts"
    | (settle) i out where "a = Settle i out"
    | (limit) l where "a = SetLimit l"
    | (other) "\<forall>meth opts. a \<noteq> Call meth opts" "\<forall>i out. a \<noteq> Settle i out"
        "\<forall>l. a \<noteq> SetLimit l"
    by (cases a) auto
  then show ?thesis
  proof cases
    case call
    from step_Call [OF refl, of meth opts \<sigma>] inv call show ?thesis by auto
  next
    case settle
    with inv show ?thesis
      by (cases "i < length (inflight \<sigma>)")
         (auto simp add: step_Settle step_Settle_none simp del: step.simps(2))
  next
    case limit
    with inv step_SetLimit [of l \<sigma>] show ?thesis by simp
  next
    case other
    with inv step_other [of a \<sigma>] show ?thesis by simp
  qed
qed

lemma step_below_limit:
  assumes inv: "\<forall>r. requests_max (inst \<sigma>) = Finite r \<longrightarrow>
      real_of_int (requests_current (inst \<sigma>)) < r + 1"
    and kept: "\<forall>l. a = SetLimit l \<longrightarrow>
      \<not> js_gt (Finite (of_int (requests_current (inst \<sigma>))))
          (requests_max (setMaxConcurrentRequestsLimit l (inst \<sigma>)))"
  shows "\<forall>r. requests_max (inst (step a \<sigma>)) = Finite r \<longrightarrow>
      real_of_int (requests_current (inst (step a \<sigma>))) < r + 1"
proof -
  consider (call) meth opts where "a = Call meth opts"
    | (settle) i out where "a = Settle i out"
    | (limit) l where "a = SetLimit l"
    | (other) "\<forall>meth opts. a \<noteq> Call meth opts" "\<forall>i out. a \<noteq> Settle i out"
        "\<forall>l. a \<noteq> SetLimit l"
    by (cases a) auto
  then show ?thesis
  proof cases
    case call
    from step_Call [OF refl, of meth opts \<sigma>] inv call show ?thesis by auto
  next
    case settle
    with inv show ?thesis
      by (cases "i < length (inflight \<sigma>)")
         (auto simp add: step_Settle step_Settle_none simp del: step.simps(2))
  next
    case limit
    with kept have "\<not> js_gt (Finite (of_int (requests_current (inst \<sigma>))))
          (requests_max (setMaxConcurrentRequestsLimit l (inst \<sigma>)))"
      by simp
    with limit step_SetLimit [of l \<sigma>] show ?thesis by auto
  next
    case other
    with inv step_other [of a \<sigma>] show ?thesis by simp
  qed
qed

lemma run_snoc: "run (acts @ [a]) \<sigma> = step a (run acts \<sigma>)"
  by (simp add: run_def)

lemma run_counted:
  "requests_current (inst \<sigma>) = int (length (inflight \<sigma>)) \<Longrightarrow>
   requests_current (inst (run acts \<sigma>)) = int (length (inflight (run acts \<sigma>)))"
  unfolding run_def
  by (induction acts arbitrary: \<sigma>) (simp_all add: step_counted)

lemma run_below_limit:
  assumes inv: "\<forall>r. requests_max (inst \<sigma>) = Finite r \<longrightarrow>
      real_of_int (requests_current (inst \<sigma>)) < r + 1"
  shows "(\<forall>pre l post. acts = pre @ SetLimit l # post \<longrightarrow>
        \<not> js_gt (Finite (of_int (requests_current (inst (run pre \<sigma>)))))
            (requests_max (setMaxConcurrentRequestsLimit l (inst (run pre \<sigma>))))) \<Longrightarrow>
     \<forall>r. requests_max (inst (run acts \<sigma>)) = Finite r \<longrightarrow>
        real_of_int (requests_current (inst (run acts \<sigma>))) < r + 1"
proof (induction acts rule: rev_induct)
  case Nil
  from inv show ?case by (simp add: run_def)
next
  case (snoc a acts)
  have "\<forall>pre l post. acts = pre @ SetLimit l # post \<longrightarrow>
        \<not> js_gt (Finite (of_int (requests_current (inst (run pre \<sigma>)))))
            (requests_max (setMaxConcurrentRequestsLimit l (inst (run pre \<sigma>))))"
  proof (intro allI impI)
    fix pre l post
    assume "acts = pre @ SetLimit l # post"
    then have "acts @ [a] = pre @ SetLimit l # (post @ [a])" by simp
    with snoc.prems show "\<not> js_gt (Finite (of_int (requests_current (inst (run pre \<sigma>)))))
            (requests_max (setMaxConcurrentRequestsLimit l (inst (run pre \<sigma>))))"
      by blast
  qed
  then have ih: "\<forall>r. requests_max (inst (run acts \<sigma>)) = Finite r \<longrightarrow>
        real_of_int (requests_current (inst (run acts \<sigma>))) < r + 1"
    by (rule snoc.IH)
  have "\<forall>l. a = SetLimit l \<longrightarrow>
      \<not> js_gt (Finite (of_int (requests_current (inst (run acts \<sigma>)))))
          (requests_max (setMaxConcurrentRequestsLimit l (inst (run acts \<sigma>))))"
  proof (intro allI impI)
    fix l
    assume "a = SetLimit l"
    then have "acts @ [a] = acts @ SetLimit l # []" by simp
    with snoc.prems show "\<not> js_gt (Finite (of_int (requests_current (inst (run acts \<sigma>)))))
          (requests_max (setMaxConcurrentRequestsLimit l (inst (run acts \<sigma>))))"
      by blast
  qed
  with ih show ?case
    unfolding run_snoc by (rule step_below_limit)
qed

lemma whole_limit:
  assumes "\<forall>r. requests_max s = Finite r \<longrightarrow> real_of_int (requests_current s) < r + 1"
    and "requests_max s = PosInfinity \<or> (\<exists>n::int. requests_max s = Finite (of_int n))"
  shows "\<not> js_gt (Finite (of_int (requests_current s))) (requests_max s)"
  using assms(2)
proof
  assume "requests_max s = PosInfinity"
  then show ?thesis by simp
next
  assume "\<exists>n::int. requests_max s = Finite (of_int n)"
  then obtain n :: int where n: "requests_max s = Finite (of_int n)" ..
  with assms(1) have "real_of_int (requests_current s) < of_int n + 1" by simp
  then have "real_of_int (requests_current s) < real_of_int (n + 1)" by simp
  then have "requests_current s < n + 1"
    by (simp only: of_int_less_iff)
  with n show ?thesis by simp
qed

lemma admitted_below_limit:
  assumes "call_begin meth opts s = (Awaiting p, s', ev)"
    and "requests_max s = PosInfinity \<or> (\<exists>n::int. requests_max s = Finite (of_int n))"
  shows "\<not> js_gt (Finite (of_int (requests_current s'))) (requests_max s')"
proof -
  from call_begin_cases [OF assms(1)]
  have adm: "\<not> js_ge (Finite (of_int (requests_current s))) (requests_max s)"
    and s': "s' = s\<lparr>requests_current := requests_current s + 1\<rparr>"
    by auto
  from adm have "\<forall>r. requests_max s' = Finite r \<longrightarrow> real_of_int (requests_current s') < r + 1"
    unfolding s' by auto
  moreover from assms(2)
  have "requests_max s' = PosInfinity \<or> (\<exists>n::int. requests_max s' = Finite (of_int n))"
    unfolding s' by simp
  ultimately show ?thesis by (rule whole_limit)
qed

text \<open>
  Claim C1, as the code has it. In every state that a sequence of operations (calls,
  settlements of their transports, and the other public operations, in any order)
  reaches from the construction of an instance, \<^verbatim>\<open>current\<close> is the number of calls
  suspended at the transport, so it is 0 whenever no call is in flight. When no
  \<^verbatim>\<open>setMaxConcurrentRequestsLimit\<close> in the sequence set a limit below the value of
  \<^verbatim>\<open>current\<close> at that moment, \<^verbatim>\<open>current\<close> stays below \<^verbatim>\<open>max + 1\<close>, and so it does not
  exceed \<^verbatim>\<open>max\<close> when \<^verbatim>\<open>max\<close> is a whole number or unbounded. In every state, a call
  that is admitted and suspended under a whole or unbounded \<^verbatim>\<open>max\<close> leaves \<^verbatim>\<open>current\<close>
  not above \<^verbatim>\<open>max\<close>. Admission increments \<^verbatim>\<open>current\<close> by one and a release decrements it
  by one. The settlement of a suspended call releases once for every outcome (a response,
  a classified error, a failed classification, a rethrown failure); a call that throws
  before it is suspended either was not admitted and leaves the instance as it was, or was
  admitted, failed in URL normalisation and released once; a call that is suspended was
  admitted and has not released.
\<close>

theorem inflight_counter_invariant:
  "\<sigma> = run acts (boot (Aurora url limit ctl ax)) \<Longrightarrow>
     requests_current (inst \<sigma>) = int (length (inflight \<sigma>))
   \<and> (inflight \<sigma> = [] \<longrightarrow> requests_current (inst \<sigma>) = 0)
   \<and> ((\<forall>pre l post. acts = pre @ SetLimit l # post \<longrightarrow>
          \<not> js_gt
              (Finite (of_int (requests_current
                 (inst (run pre (boot (Aurora url limit ctl ax)))))))
              (requests_max (setMaxConcurrentRequestsLimit l
                 (inst (run pre (boot (Aurora url limit ctl ax))))))) \<longrightarrow>
        (\<forall>r. requests_max (inst \<sigma>) = Finite r \<longrightarrow>
           real_of_int (requests_current (inst \<sigma>)) < r + 1)
        \<and> (requests_max (inst \<sigma>) = PosInfinity
             \<or> (\<exists>n::int. requests_max (inst \<sigma>) = Finite (of_int n)) \<longrightarrow>
             \<not> js_gt (Finite (of_int (requests_current (inst \<sigma>)))) (requests_max (inst \<sigma>))))
   \<and> (\<forall>meth opts s p s' ev. call_begin meth opts s = (Awaiting p, s', ev) \<longrightarrow>
          requests_max s = PosInfinity \<or> (\<exists>n::int. requests_max s = Finite (of_int n)) \<longrightarrow>
          \<not> js_gt (Finite (of_int (requests_current s'))) (requests_max s'))
   \<and> (\<forall>s s1. admit s = Inr s1 \<longrightarrow> requests_current s1 = requests_current s + 1)
   \<and> (\<forall>s. requests_current (release s) = requests_current s - 1)
   \<and> (\<forall>p out s. fst (snd (call_resume p out s)) = release s)
   \<and> (\<forall>meth opts s e s' ev. call_begin meth opts s = (Threw e, s', ev) \<longrightarrow>
          (admit s = Inl e \<and> s' = s)
          \<or> (\<exists>s1. admit s = Inr s1 \<and> resolve_url (rest_options opts) s1 = Inl e
                \<and> s' = release s1))
   \<and> (\<forall>meth opts s p s' ev. call_begin meth opts s = (Awaiting p, s', ev) \<longrightarrow>
          admit s = Inr s')"
proof -
  assume \<sigma>: "\<sigma> = run acts (boot (Aurora url limit ctl ax))"
  let ?\<sigma>0 = "boot (Aurora url limit ctl ax)"
  have count: "requests_current (inst \<sigma>) = int (length (inflight \<sigma>))"
    unfolding \<sigma> by (rule run_counted) (simp add: boot_def Aurora_requests)
  from count have idle: "inflight \<sigma> = [] \<longrightarrow> requests_current (inst \<sigma>) = 0"
    by simp
  have start: "\<forall>r. requests_max (inst ?\<sigma>0) = Finite r \<longrightarrow>
      real_of_int (requests_current (inst ?\<sigma>0)) < r + 1"
  proof (intro allI impI)
    fix r
    assume "requests_max (inst ?\<sigma>0) = Finite r"
    then have "requests_max (Aurora url limit ctl ax) = Finite r" by (simp add: boot_def)
    then have "0 < r" by (rule Aurora_requests)
    then show "real_of_int (requests_current (inst ?\<sigma>0)) < r + 1"
      by (simp add: boot_def Aurora_requests)
  qed
  have kept: "(\<forall>pre l post. acts = pre @ SetLimit l # post \<longrightarrow>
          \<not> js_gt (Finite (of_int (requests_current (inst (run pre ?\<sigma>0)))))
              (requests_max (setMaxConcurrentRequestsLimit l (inst (run pre ?\<sigma>0))))) \<longrightarrow>
        (\<forall>r. requests_max (inst \<sigma>) = Finite r \<longrightarrow>
           real_of_int (requests_current (inst \<sigma>)) < r + 1)
        \<and> (requests_max (inst \<sigma>) = PosInfinity
             \<or> (\<exists>n::int. requests_max (inst \<sigma>) = Finite (of_int n)) \<longrightarrow>
             \<not> js_gt (Finite (of_int (requests_current (inst \<sigma>)))) (requests_max (inst \<sigma>)))"
  proof (intro impI conjI)
    assume k: "\<forall>pre l post. acts = pre @ SetLimit l # post \<longrightarrow>
          \<not> js_gt (Finite (of_int (requests_current (inst (run pre ?\<sigma>0)))))
              (requests_max (setMaxConcurrentRequestsLimit l (inst (run pre ?\<sigma>0))))"
    show b: "\<forall>r. requests_max (inst \<sigma>) = Finite r \<longrightarrow>
           real_of_int (requests_current (inst \<sigma>)) < r + 1"
      unfolding \<sigma> using start k by (rule run_below_limit)
    assume "requests_max (inst \<sigma>) = PosInfinity
             \<or> (\<exists>n::int. requests_max (inst \<sigma>) = Finite (of_int n))"
    with b show "\<not> js_gt (Finite (of_int (requests_current (inst \<sigma>)))) (requests_max (inst \<sigma>))"
      by (rule whole_limit)
  qed
  have admitted: "\<forall>meth opts s p s' ev. call_begin meth opts s = (Awaiting p, s', ev) \<longrightarrow>
          requests_max s = PosInfinity \<or> (\<exists>n::int. requests_max s = Finite (of_int n)) \<longrightarrow>
          \<not> js_gt (Finite (of_int (requests_current s'))) (requests_max s')"
  proof (intro allI impI)
    fix meth opts s p s' ev
    assume "call_begin meth opts s = (Awaiting p, s', ev)"
      and "requests_max s = PosInfinity \<or> (\<exists>n::int. requests_max s = Finite (of_int n))"
    then show "\<not> js_gt (Finite (of_int (requests_current s'))) (requests_max s')"
      by (rule admitted_below_limit)
  qed
  have begin_threw: "\<forall>meth opts s e s' ev. call_begin meth opts s = (Threw e, s', ev) \<longrightarrow>
          (admit s = Inl e \<and> s' = s)
          \<or> (\<exists>s1. admit s = Inr s1 \<and> resolve_url (rest_options opts) s1 = Inl e
                \<and> s' = release s1)"
    by (blast dest: call_begin_exits)
  have begin_await: "\<forall>meth opts s p s' ev. call_begin meth opts s = (Awaiting p, s', ev) \<longrightarrow>
          admit s = Inr s'"
    by (blast dest: call_begin_suspends)
  have adm: "\<forall>s s1. admit s = Inr s1 \<longrightarrow> requests_current s1 = requests_current s + 1"
    by (auto simp add: admit_def split: if_splits)
  have rel: "\<forall>s. requests_current (release s) = requests_current s - 1"
    by (simp add: release_def)
  have res: "\<forall>p out s. fst (snd (call_resume p out s)) = release s"
    by (simp add: call_resume_release)
  from count idle kept admitted adm rel res begin_threw begin_await show ?thesis
    by (intro conjI)
qed

lemma api_two_calls:
  "inst (run [Call (js ''get'') spinner_request, Call (js ''get'') spinner_request]
      (boot api_instance)) = api_instance\<lparr>requests_current := 2\<rparr>"
  by (simp add: run_def boot_def spinner_request_begin api_instance_simps)

lemma api_limit_two:
  "inst (run [Call (js ''get'') spinner_request, Call (js ''get'') spinner_request,
        SetLimit (Some (Finite 2)), Call (js ''get'') spinner_request] (boot api_instance))
     = api_instance\<lparr>requests_max := Finite 2, requests_current := 2\<rparr>"
  "inflight (run [Call (js ''get'') spinner_request, Call (js ''get'') spinner_request,
        SetLimit (Some (Finite 2)), Call (js ''get'') spinner_request] (boot api_instance))
     = [data_request, data_request]"
  by (simp_all add: run_def boot_def spinner_request_begin api_instance_simps
      setMaxConcurrentRequestsLimit_def truthy_def)

lemma api_limit_two_settled:
  "inflight (run [Call (js ''get'') spinner_request, Call (js ''get'') spinner_request,
        SetLimit (Some (Finite 2)), Call (js ''get'') spinner_request,
        Settle 0 (RejectedAxios canceled_error), Settle 0 (Fulfilled ok_response)]
      (boot api_instance)) = []"
  by (simp add: run_def boot_def spinner_request_begin api_instance_simps
      setMaxConcurrentRequestsLimit_def truthy_def step_Settle del: step.simps(2))

lemma api_limit_kept:
  "[Call (js ''get'') spinner_request, Call (js ''get'') spinner_request,
    SetLimit (Some (Finite 2)), Call (js ''get'') spinner_request] = pre @ SetLimit l # post \<Longrightarrow>
   \<not> js_gt (Finite (of_int (requests_current (inst (run pre (boot api_instance))))))
       (requests_max (setMaxConcurrentRequestsLimit l (inst (run pre (boot api_instance)))))"
proof -
  assume eq: "[Call (js ''get'') spinner_request, Call (js ''get'') spinner_request,
    SetLimit (Some (Finite 2)), Call (js ''get'') spinner_request] = pre @ SetLimit l # post"
  then have "pre = [Call (js ''get'') spinner_request, Call (js ''get'') spinner_request]
      \<and> l = Some (Finite 2)"
    by (auto simp add: Cons_eq_append_conv)
  then show ?thesis
    by (simp add: api_two_calls setMaxConcurrentRequestsLimit_def truthy_def)
qed

theorem inflight_counter_invariant_witness:
  "requests_max (inst (run [Call (js ''get'') spinner_request, Call (js ''get'') spinner_request,
        SetLimit (Some (Finite 2)), Call (js ''get'') spinner_request] (boot api_instance)))
     = Finite (of_int 2)
   \<and> requests_current (inst (run [Call (js ''get'') spinner_request,
        Call (js ''get'') spinner_request, SetLimit (Some (Finite 2)),
        Call (js ''get'') spinner_request] (boot api_instance))) = 2
   \<and> \<not> js_gt (Finite (of_int (requests_current (inst (run [Call (js ''get'') spinner_request,
        Call (js ''get'') spinner_request, SetLimit (Some (Finite 2)),
        Call (js ''get'') spinner_request] (boot api_instance))))))
        (requests_max (inst (run [Call (js ''get'') spinner_request,
        Call (js ''get'') spinner_request, SetLimit (Some (Finite 2)),
        Call (js ''get'') spinner_request] (boot api_instance))))
   \<and> inflight (run [Call (js ''get'') spinner_request, Call (js ''get'') spinner_request,
        SetLimit (Some (Finite 2)), Call (js ''get'') spinner_request,
        Settle 0 (RejectedAxios canceled_error), Settle 0 (Fulfilled ok_response)]
      (boot api_instance)) = []
   \<and> requests_current (inst (run [Call (js ''get'') spinner_request,
        Call (js ''get'') spinner_request, SetLimit (Some (Finite 2)),
        Call (js ''get'') spinner_request, Settle 0 (RejectedAxios canceled_error),
        Settle 0 (Fulfilled ok_response)] (boot api_instance))) = 0"
proof -
  let ?four = "[Call (js ''get'') spinner_request, Call (js ''get'') spinner_request,
        SetLimit (Some (Finite 2)), Call (js ''get'') spinner_request]"
  let ?six = "[Call (js ''get'') spinner_request, Call (js ''get'') spinner_request,
        SetLimit (Some (Finite 2)), Call (js ''get'') spinner_request,
        Settle 0 (RejectedAxios canceled_error), Settle 0 (Fulfilled ok_response)]"
  have m: "requests_max (inst (run ?four (boot api_instance))) = Finite (of_int 2)"
    by (simp add: api_limit_two)
  have l: "length (inflight (run ?four (boot api_instance))) = 2"
    by (simp add: api_limit_two)
  have kept: "\<forall>pre l post. ?four = pre @ SetLimit l # post \<longrightarrow>
      \<not> js_gt (Finite (of_int (requests_current (inst (run pre (boot api_instance))))))
          (requests_max (setMaxConcurrentRequestsLimit l (inst (run pre (boot api_instance)))))"
    by (intro allI impI) (rule api_limit_kept)
  note g4 = inflight_counter_invariant [OF refl, of ?four
      "Some (js ''https://api.example.com'')" "Some (Finite 5)" 0 plain_axios,
      folded api_instance_def]
  note g6 = inflight_counter_invariant [OF refl, of ?six
      "Some (js ''https://api.example.com'')" "Some (Finite 5)" 0 plain_axios,
      folded api_instance_def]
  from g4 [THEN conjunct1] l
  have c: "requests_current (inst (run ?four (boot api_instance))) = 2"
    by simp
  have b: "(\<forall>r. requests_max (inst (run ?four (boot api_instance))) = Finite r \<longrightarrow>
           real_of_int (requests_current (inst (run ?four (boot api_instance)))) < r + 1)
        \<and> (requests_max (inst (run ?four (boot api_instance))) = PosInfinity
             \<or> (\<exists>n::int. requests_max (inst (run ?four (boot api_instance)))
                   = Finite (of_int n)) \<longrightarrow>
             \<not> js_gt (Finite (of_int (requests_current (inst (run ?four (boot api_instance))))))
                 (requests_max (inst (run ?four (boot api_instance)))))"
    by (rule mp [OF g4 [THEN conjunct2, THEN conjunct2, THEN conjunct1] kept])
  from m have w: "requests_max (inst (run ?four (boot api_instance))) = PosInfinity
      \<or> (\<exists>n::int. requests_max (inst (run ?four (boot api_instance))) = Finite (of_int n))"
    by (intro disjI2 exI)
  have below: "\<not> js_gt (Finite (of_int (requests_current (inst (run ?four (boot api_instance))))))
        (requests_max (inst (run ?four (boot api_instance))))"
    by (rule mp [OF b [THEN conjunct2] w])
  have idle: "requests_current (inst (run ?six (boot api_instance))) = 0"
    by (rule mp [OF g6 [THEN conjunct2, THEN conjunct1] api_limit_two_settled])
  from m c below api_limit_two_settled idle show ?thesis
    by (intro conjI)
qed

text \<open>
  Claim C1 as the specification states it fails: on an instance constructed with the
  limit five, two calls are admitted and suspended at the transport, and
  \<^verbatim>\<open>setMaxConcurrentRequestsLimit(1)\<close> then leaves \<^verbatim>\<open>current = 2\<close> above \<^verbatim>\<open>max = 1\<close>.
\<close>

theorem counter_exceeds_lowered_limit:
  "requests_max (inst (run [Call (js ''get'') spinner_request, Call (js ''get'') spinner_request,
        SetLimit (Some (Finite 1))] (boot api_instance))) = Finite 1
   \<and> requests_current (inst (run [Call (js ''get'') spinner_request,
        Call (js ''get'') spinner_request, SetLimit (Some (Finite 1))] (boot api_instance))) = 2
   \<and> length (inflight (run [Call (js ''get'') spinner_request,
        Call (js ''get'') spinner_request, SetLimit (Some (Finite 1))] (boot api_instance))) = 2
   \<and> js_gt (Finite (of_int (requests_current (inst (run [Call (js ''get'') spinner_request,
        Call (js ''get'') spinner_request, SetLimit (Some (Finite 1))] (boot api_instance))))))
       (requests_max (inst (run [Call (js ''get'') spinner_request,
        Call (js ''get'') spinner_request, SetLimit (Some (Finite 1))] (boot api_instance))))"
  by (simp add: run_def boot_def spinner_request_begin api_instance_simps
      setMaxConcurrentRequestsLimit_def truthy_def)

section \<open>Properties of the default store\<close>

lemma fold_delete:
  "fold (\<lambda>k m. m(k := None)) names m k = (if k \<in> set names then None else m k)"
  by (induction names arbitrary: m) auto

text \<open>
  Claim C7, as the code has it. After \<open>addHeaders hs\<close> a header name has the value \<open>hs\<close> gives it when \<open>hs\<close>
  names it, and the value it had otherwise; \<open>removeHeaders\<close> with no argument leaves no
  default header; \<open>removeHeaders\<close> with a list of names removes the named headers and keeps
  every other header as it was, whether or not a name was present. Adding \<^verbatim>\<open>{A: "1"}\<close>,
  then \<^verbatim>\<open>{A: "2", B: "3"}\<close>, then removing \<^verbatim>\<open>["A"]\<close> leaves the headers as they were but
  without \<^verbatim>\<open>A\<close> and with \<^verbatim>\<open>B: "3"\<close>: exactly \<^verbatim>\<open>{B: "3"}\<close> when there was none before.
\<close>

theorem default_headers_contract:
  "headers_common (axiosInstance (addHeaders hs s)) k
     = (case hs k of Some v \<Rightarrow> Some v | None \<Rightarrow> headers_common (axiosInstance s) k)
   \<and> headers_common (axiosInstance (removeHeaders None s)) = Map.empty
   \<and> headers_common (axiosInstance (removeHeaders (Some names) s)) k
     = (if k \<in> set names then None else headers_common (axiosInstance s) k)
   \<and> headers_common (axiosInstance
        (removeHeaders (Some [js ''A''])
          (addHeaders [js ''A'' \<mapsto> VString (js ''2''), js ''B'' \<mapsto> VString (js ''3'')]
            (addHeaders [js ''A'' \<mapsto> VString (js ''1'')] s))))
     = (headers_common (axiosInstance s)) (js ''A'' := None, js ''B'' \<mapsto> VString (js ''3''))
   \<and> (headers_common (axiosInstance s) = Map.empty \<longrightarrow>
       headers_common (axiosInstance
        (removeHeaders (Some [js ''A''])
          (addHeaders [js ''A'' \<mapsto> VString (js ''2''), js ''B'' \<mapsto> VString (js ''3'')]
            (addHeaders [js ''A'' \<mapsto> VString (js ''1'')] s))))
       = [js ''B'' \<mapsto> VString (js ''3'')])"
proof (intro conjI)
  show "headers_common (axiosInstance (addHeaders hs s)) k
     = (case hs k of Some v \<Rightarrow> Some v | None \<Rightarrow> headers_common (axiosInstance s) k)"
    by (simp add: addHeaders_def map_add_def split: option.split)
  show "headers_common (axiosInstance (removeHeaders None s)) = Map.empty"
    by (simp add: removeHeaders_def)
  show "headers_common (axiosInstance (removeHeaders (Some names) s)) k
     = (if k \<in> set names then None else headers_common (axiosInstance s) k)"
    by (simp add: removeHeaders_def fold_delete)
  have ne: "js ''A'' \<noteq> js ''B''" by (simp add: js_def)
  show ex: "headers_common (axiosInstance
        (removeHeaders (Some [js ''A''])
          (addHeaders [js ''A'' \<mapsto> VString (js ''2''), js ''B'' \<mapsto> VString (js ''3'')]
            (addHeaders [js ''A'' \<mapsto> VString (js ''1'')] s))))
     = (headers_common (axiosInstance s)) (js ''A'' := None, js ''B'' \<mapsto> VString (js ''3''))"
    using ne by (auto simp add: removeHeaders_def addHeaders_def map_add_def fun_eq_iff)
  show "headers_common (axiosInstance s) = Map.empty \<longrightarrow>
       headers_common (axiosInstance
        (removeHeaders (Some [js ''A''])
          (addHeaders [js ''A'' \<mapsto> VString (js ''2''), js ''B'' \<mapsto> VString (js ''3'')]
            (addHeaders [js ''A'' \<mapsto> VString (js ''1'')] s))))
       = [js ''B'' \<mapsto> VString (js ''3'')]"
    unfolding ex using ne by (auto simp add: fun_eq_iff)
qed

theorem default_headers_contract_witness:
  "headers_common (axiosInstance bare_instance) = Map.empty
   \<and> headers_common (axiosInstance
        (removeHeaders (Some [js ''A''])
          (addHeaders [js ''A'' \<mapsto> VString (js ''2''), js ''B'' \<mapsto> VString (js ''3'')]
            (addHeaders [js ''A'' \<mapsto> VString (js ''1'')] bare_instance))))
       = [js ''B'' \<mapsto> VString (js ''3'')]
   \<and> headers_common (axiosInstance
        (addHeaders [js ''A'' \<mapsto> VString (js ''2'')]
          (addHeaders [js ''A'' \<mapsto> VString (js ''1''), js ''C'' \<mapsto> VString (js ''4'')]
            bare_instance))) (js ''A'') = Some (VString (js ''2''))
   \<and> headers_common (axiosInstance
        (addHeaders [js ''A'' \<mapsto> VString (js ''2'')]
          (addHeaders [js ''A'' \<mapsto> VString (js ''1''), js ''C'' \<mapsto> VString (js ''4'')]
            bare_instance))) (js ''C'') = Some (VString (js ''4''))
   \<and> headers_common (axiosInstance
        (removeHeaders (Some [js ''X'', js ''A''])
          (addHeaders [js ''A'' \<mapsto> VString (js ''1''), js ''C'' \<mapsto> VString (js ''4'')]
            bare_instance))) (js ''C'') = Some (VString (js ''4''))"
proof -
  have e: "headers_common (axiosInstance bare_instance) = Map.empty"
    by (simp add: bare_instance_def Aurora_def setMaxConcurrentRequestsLimit_def plain_axios_def)
  have ne: "js ''A'' \<noteq> js ''C''" "js ''C'' \<noteq> js ''A''" "js ''C'' \<noteq> js ''X''"
    by (simp_all add: js_def)
  let ?s = "addHeaders [js ''A'' \<mapsto> VString (js ''1''), js ''C'' \<mapsto> VString (js ''4'')]
            bare_instance"
  from default_headers_contract [of _ bare_instance "js ''C''"] ne
  have c: "headers_common (axiosInstance ?s) (js ''C'') = Some (VString (js ''4''))"
    by simp
  from default_headers_contract [of "[js ''A'' \<mapsto> VString (js ''2'')]" ?s "js ''A''"]
  have "headers_common (axiosInstance (addHeaders [js ''A'' \<mapsto> VString (js ''2'')] ?s))
      (js ''A'') = Some (VString (js ''2''))"
    by simp
  moreover
  from default_headers_contract [of "[js ''A'' \<mapsto> VString (js ''2'')]" ?s "js ''C''"] c ne
  have "headers_common (axiosInstance (addHeaders [js ''A'' \<mapsto> VString (js ''2'')] ?s))
      (js ''C'') = Some (VString (js ''4''))"
    by simp
  moreover
  from default_headers_contract [of _ ?s "js ''C''" "[js ''X'', js ''A'']"] c ne
  have "headers_common (axiosInstance (removeHeaders (Some [js ''X'', js ''A'']) ?s))
      (js ''C'') = Some (VString (js ''4''))"
    by simp
  moreover
  from default_headers_contract [of _ bare_instance] e
  have "headers_common (axiosInstance
        (removeHeaders (Some [js ''A''])
          (addHeaders [js ''A'' \<mapsto> VString (js ''2''), js ''B'' \<mapsto> VString (js ''3'')]
            (addHeaders [js ''A'' \<mapsto> VString (js ''1'')] bare_instance))))
       = [js ''B'' \<mapsto> VString (js ''3'')]"
    by blast
  ultimately show ?thesis using e by blast
qed

text \<open>
  Claim C7 as the specification states it fails: on an instance whose Axios defaults hold
  the common header \<^verbatim>\<open>Accept\<close>, the three operations of the example leave \<^verbatim>\<open>Accept\<close> in
  the default headers, which are therefore not \<^verbatim>\<open>{B: "3"}\<close>.
\<close>

theorem default_headers_example_keeps_accept:
  "headers_common (axiosInstance stock_instance) (js ''Accept'')
     = Some (VString (js ''application/json, text/plain, */*''))
   \<and> headers_common (axiosInstance
        (removeHeaders (Some [js ''A''])
          (addHeaders [js ''A'' \<mapsto> VString (js ''2''), js ''B'' \<mapsto> VString (js ''3'')]
            (addHeaders [js ''A'' \<mapsto> VString (js ''1'')] stock_instance)))) (js ''Accept'')
     = Some (VString (js ''application/json, text/plain, */*''))
   \<and> [js ''B'' \<mapsto> VString (js ''3'')] (js ''Accept'') = None
   \<and> headers_common (axiosInstance
        (removeHeaders (Some [js ''A''])
          (addHeaders [js ''A'' \<mapsto> VString (js ''2''), js ''B'' \<mapsto> VString (js ''3'')]
            (addHeaders [js ''A'' \<mapsto> VString (js ''1'')] stock_instance))))
     \<noteq> [js ''B'' \<mapsto> VString (js ''3'')]"
proof -
  have ne: "js ''Accept'' \<noteq> js ''A''" "js ''Accept'' \<noteq> js ''B''"
    by (simp_all add: js_def)
  have s: "headers_common (axiosInstance stock_instance) (js ''Accept'')
     = Some (VString (js ''application/json, text/plain, */*''))"
    by (simp add: stock_instance_def Aurora_def setMaxConcurrentRequestsLimit_def
        stock_axios_def)
  have a: "headers_common (axiosInstance
        (removeHeaders (Some [js ''A''])
          (addHeaders [js ''A'' \<mapsto> VString (js ''2''), js ''B'' \<mapsto> VString (js ''3'')]
            (addHeaders [js ''A'' \<mapsto> VString (js ''1'')] stock_instance)))) (js ''Accept'')
     = Some (VString (js ''application/json, text/plain, */*''))"
    using ne s by (simp add: removeHeaders_def addHeaders_def map_add_def)
  have b: "[js ''B'' \<mapsto> VString (js ''3'')] (js ''Accept'') = None"
    using ne by simp
  from a b have "headers_common (axiosInstance
        (removeHeaders (Some [js ''A''])
          (addHeaders [js ''A'' \<mapsto> VString (js ''2''), js ''B'' \<mapsto> VString (js ''3'')]
            (addHeaders [js ''A'' \<mapsto> VString (js ''1'')] stock_instance))))
     \<noteq> [js ''B'' \<mapsto> VString (js ''3'')]"
    by (metis option.distinct(1))
  with s a b show ?thesis by (intro conjI)
qed

subsection \<open>Default parameters\<close>

lemma addParams_merges:
  "params (axiosInstance s) = Some target \<Longrightarrow>
   \<exists>s'. addParams ps s = Inr s' \<and> params (axiosInstance s') = Some (target ++ ps)
     \<and> headers_common (axiosInstance s') = headers_common (axiosInstance s)"
  by (simp add: addParams_def)

lemma removeParams_clears:
  "\<exists>s'. removeParams None s = Inr s' \<and> params (axiosInstance s') = Some Map.empty"
  by (simp add: removeParams_def)

lemma deleteParams_defined:
  "params (axiosInstance s) = Some target \<Longrightarrow>
   \<exists>s'. deleteParams names s = Inr s'
     \<and> params (axiosInstance s') = Some (fold (\<lambda>k m. m(k := None)) names target)
     \<and> headers_common (axiosInstance s') = headers_common (axiosInstance s)"
proof (induction names arbitrary: s target)
  case Nil
  then show ?case by simp
next
  case (Cons a names)
  let ?s = "s\<lparr>axiosInstance := (axiosInstance s)\<lparr>params := Some (target(a := None))\<rparr>\<rparr>"
  have "params (axiosInstance ?s) = Some (target(a := None))" by simp
  from Cons.IH [OF this] Cons.prems show ?case by simp
qed

lemma removeParams_named:
  "params (axiosInstance s) = Some target \<Longrightarrow>
   \<exists>s'. removeParams (Some names) s = Inr s'
     \<and> params (axiosInstance s') = Some (fold (\<lambda>k m. m(k := None)) names target)"
  using deleteParams_defined [of s target names] by (auto simp add: removeParams_def)

text \<open>
  Claim C8 fails on the code. On an instance constructed as in the README, whose Axios
  instance holds no default parameters object, \<open>addParams\<close> with the parameters of the
  README throws a \<^verbatim>\<open>TypeError\<close>; it merges nothing.
\<close>

theorem addParams_fresh_instance:
  "addParams [js ''page'' \<mapsto> VNumber (Finite 1), js ''limit'' \<mapsto> VNumber (Finite 10)]
       api_instance
     = Inl TypeError"
  by (simp add: addParams_def api_instance_def Aurora_def plain_axios_def
      setMaxConcurrentRequestsLimit_def)

end
